theory Spec2Isabelle
  imports Complex_Main "HOL-Library.Product_Lexorder"
begin

section \<open>Floating-point cells of a data frame\<close>

text \<open>
  The numeric columns that \<^verbatim>\<open>union_plot.py\<close> computes are float64 columns. A cell is
  a finite number, one of the two infinities, or NaN. Finite arithmetic is taken over
  the reals (rounding is not modelled) and the two zeros are identified; what is
  modelled exactly is which operations leave the finite numbers, since a division
  of two columns never raises: it yields an infinity or NaN.
\<close>

datatype float64 = Finite real | PosInf | NegInf | NaN

fun fsub :: "float64 \<Rightarrow> float64 \<Rightarrow> float64" where
  "fsub NaN _ = NaN"
| "fsub _ NaN = NaN"
| "fsub (Finite a) (Finite b) = Finite (a - b)"
| "fsub (Finite a) PosInf = NegInf"
| "fsub (Finite a) NegInf = PosInf"
| "fsub PosInf PosInf = NaN"
| "fsub PosInf _ = PosInf"
| "fsub NegInf NegInf = NaN"
| "fsub NegInf _ = NegInf"

fun fabs :: "float64 \<Rightarrow> float64" where
  "fabs (Finite a) = Finite \<bar>a\<bar>"
| "fabs PosInf = PosInf"
| "fabs NegInf = PosInf"
| "fabs NaN = NaN"

fun fmul :: "float64 \<Rightarrow> float64 \<Rightarrow> float64" where
  "fmul NaN _ = NaN"
| "fmul _ NaN = NaN"
| "fmul (Finite a) (Finite b) = Finite (a * b)"
| "fmul (Finite a) PosInf = (if a = 0 then NaN else if 0 < a then PosInf else NegInf)"
| "fmul (Finite a) NegInf = (if a = 0 then NaN else if 0 < a then NegInf else PosInf)"
| "fmul PosInf (Finite b) = (if b = 0 then NaN else if 0 < b then PosInf else NegInf)"
| "fmul NegInf (Finite b) = (if b = 0 then NaN else if 0 < b then NegInf else PosInf)"
| "fmul PosInf PosInf = PosInf"
| "fmul PosInf NegInf = NegInf"
| "fmul NegInf PosInf = NegInf"
| "fmul NegInf NegInf = PosInf"

fun fdiv :: "float64 \<Rightarrow> float64 \<Rightarrow> float64" where
  "fdiv NaN _ = NaN"
| "fdiv _ NaN = NaN"
| "fdiv (Finite a) (Finite b) =
     (if b \<noteq> 0 then Finite (a / b)
      else if a = 0 then NaN else if 0 < a then PosInf else NegInf)"
| "fdiv (Finite a) PosInf = Finite 0"
| "fdiv (Finite a) NegInf = Finite 0"
| "fdiv PosInf (Finite b) = (if 0 \<le> b then PosInf else NegInf)"
| "fdiv NegInf (Finite b) = (if 0 \<le> b then NegInf else PosInf)"
| "fdiv PosInf _ = NaN"
| "fdiv NegInf _ = NaN"

text \<open>The comparison \<^verbatim>\<open><\<close> of two cells; every comparison with NaN is false.\<close>

fun fless :: "float64 \<Rightarrow> float64 \<Rightarrow> bool" where
  "fless NaN _ = False"
| "fless _ NaN = False"
| "fless (Finite a) (Finite b) = (a < b)"
| "fless (Finite a) PosInf = True"
| "fless (Finite a) NegInf = False"
| "fless PosInf _ = False"
| "fless NegInf NegInf = False"
| "fless NegInf _ = True"

section \<open>Raw trial records\<close>

text \<open>
  A row of \<^verbatim>\<open>union_detailed.csv\<close> and a row of \<^verbatim>\<open>exact_detailed.csv\<close>, with the
  columns the script reads. The key columns are integers, the measurements are finite
  numbers, the sketch size is an integer number of bytes.
\<close>

record union_rec =
  u_precision :: int
  u_num_days :: int
  u_estimated_count :: real
  u_query_time_ms :: real
  u_total_sketch_size_bytes :: int

record exact_rec =
  x_num_days :: int
  x_exact_count :: real
  x_query_time_ms :: real

section \<open>Aggregation\<close>

text \<open>
  The reductions of a group-by: \<^verbatim>\<open>'mean'\<close>, \<^verbatim>\<open>'std'\<close> (sample standard deviation,
  one degree of freedom removed) and \<^verbatim>\<open>'max'\<close>. The mean of no value and the
  standard deviation of fewer than two values are NaN.
\<close>

definition mean :: "real list \<Rightarrow> float64" where
  "mean xs = (if xs = [] then NaN else Finite (sum_list xs / real (length xs)))"

definition std :: "real list \<Rightarrow> float64" where
  "std xs =
     (if length xs < 2 then NaN
      else let m = sum_list xs / real (length xs)
           in Finite (sqrt (sum_list (map (\<lambda>x. (x - m)\<^sup>2) xs) / real (length xs - 1))))"

record union_stat =
  us_precision :: int
  us_num_days :: int
  us_avg_estimate :: float64
  us_union_time_ms :: float64
  us_union_stddev_ms :: float64
  us_total_sketch_bytes :: int

record exact_stat =
  es_num_days :: int
  es_exact_count :: float64
  es_exact_time_ms :: float64
  es_exact_stddev_ms :: float64

definition union_key :: "union_rec \<Rightarrow> int \<times> int" where
  "union_key t = (u_precision t, u_num_days t)"

text \<open>
  \<^verbatim>\<open>union_df.groupby(['precision', 'num_days'], as_index=False)\<close>: the groups are the
  distinct key tuples in ascending order (the default \<^verbatim>\<open>sort=True\<close>), and a group holds
  the rows with that key.
\<close>

definition union_groups :: "union_rec list \<Rightarrow> (int \<times> int) list" where
  "union_groups df = sort (remdups (map union_key df))"

definition union_group :: "union_rec list \<Rightarrow> int \<times> int \<Rightarrow> union_rec list" where
  "union_group df k = filter (\<lambda>t. union_key t = k) df"

definition union_agg :: "union_rec list \<Rightarrow> int \<times> int \<Rightarrow> union_stat" where
  "union_agg df k =
     (let g = union_group df k in
      \<lparr> us_precision = fst k,
        us_num_days = snd k,
        us_avg_estimate = mean (map u_estimated_count g),
        us_union_time_ms = mean (map u_query_time_ms g),
        us_union_stddev_ms = std (map u_query_time_ms g),
        us_total_sketch_bytes = Max (set (map u_total_sketch_size_bytes g)) \<rparr>)"

definition union_stats :: "union_rec list \<Rightarrow> union_stat list" where
  "union_stats df = map (union_agg df) (union_groups df)"

definition exact_groups :: "exact_rec list \<Rightarrow> int list" where
  "exact_groups df = sort (remdups (map x_num_days df))"

definition exact_group :: "exact_rec list \<Rightarrow> int \<Rightarrow> exact_rec list" where
  "exact_group df k = filter (\<lambda>t. x_num_days t = k) df"

definition exact_agg :: "exact_rec list \<Rightarrow> int \<Rightarrow> exact_stat" where
  "exact_agg df k =
     (let g = exact_group df k in
      \<lparr> es_num_days = k,
        es_exact_count = mean (map x_exact_count g),
        es_exact_time_ms = mean (map x_query_time_ms g),
        es_exact_stddev_ms = std (map x_query_time_ms g) \<rparr>)"

definition exact_stats :: "exact_rec list \<Rightarrow> exact_stat list" where
  "exact_stats df = map (exact_agg df) (exact_groups df)"

section \<open>Join and derived metrics\<close>

record comparison_row =
  precision :: int
  num_days :: int
  avg_estimate :: float64
  union_time_ms :: float64
  union_stddev_ms :: float64
  total_sketch_bytes :: int
  exact_count :: float64
  exact_time_ms :: float64
  exact_stddev_ms :: float64

definition join_row :: "union_stat \<Rightarrow> exact_stat \<Rightarrow> comparison_row" where
  "join_row u e =
     \<lparr> precision = us_precision u,
       num_days = us_num_days u,
       avg_estimate = us_avg_estimate u,
       union_time_ms = us_union_time_ms u,
       union_stddev_ms = us_union_stddev_ms u,
       total_sketch_bytes = us_total_sketch_bytes u,
       exact_count = es_exact_count e,
       exact_time_ms = es_exact_time_ms e,
       exact_stddev_ms = es_exact_stddev_ms e \<rparr>"

text \<open>
  \<^verbatim>\<open>union_stats.merge(exact_stats, on='num_days')\<close>: an inner join on the one column,
  keeping the order of the left rows, as the library documents it; a left row is paired
  with every right row of the same \<^verbatim>\<open>num_days\<close>, and a row of either side with no
  partner gives no output row. The result has a fresh index 0, 1, 2, ...
\<close>

definition merge_on_num_days :: "union_stat list \<Rightarrow> exact_stat list \<Rightarrow> comparison_row list" where
  "merge_on_num_days us es =
     concat (map (\<lambda>u. map (join_row u) (filter (\<lambda>e. es_num_days e = us_num_days u) es)) us)"

definition comparison_df :: "union_rec list \<Rightarrow> exact_rec list \<Rightarrow> comparison_row list" where
  "comparison_df union_df exact_df = merge_on_num_days (union_stats union_df) (exact_stats exact_df)"

text \<open>The derived columns, each computed cell by cell from the columns of the same row.\<close>

definition error_absolute :: "comparison_row \<Rightarrow> float64" where
  "error_absolute r = fabs (fsub (avg_estimate r) (exact_count r))"

definition error_pct :: "comparison_row \<Rightarrow> float64" where
  "error_pct r = fmul (fdiv (error_absolute r) (exact_count r)) (Finite 100)"

definition speedup_factor :: "comparison_row \<Rightarrow> float64" where
  "speedup_factor r = fdiv (exact_time_ms r) (union_time_ms r)"

definition sketch_size_kb :: "comparison_row \<Rightarrow> float64" where
  "sketch_size_kb r = Finite (real_of_int (total_sketch_bytes r) / 1024)"

definition efficiency_score :: "comparison_row \<Rightarrow> float64" where
  "efficiency_score r = fdiv (speedup_factor r) (error_pct r)"

section \<open>Summary statistics\<close>

text \<open>
  \<^verbatim>\<open>Series.idxmax()\<close> and \<^verbatim>\<open>Series.idxmin()\<close> with the default \<^verbatim>\<open>skipna=True\<close>: NaN
  cells are filled with the worst value (minus infinity for a maximum, plus infinity
  for a minimum) and the position of the first extreme cell is returned. On an empty
  column and on a column of NaN only there is no position: the lookup
  \<^verbatim>\<open>comparison_df.loc[...]\<close> that follows raises, which is \<open>None\<close> here.
\<close>

definition fillna :: "float64 \<Rightarrow> float64 \<Rightarrow> float64" where
  "fillna d x = (if x = NaN then d else x)"

fun argbest :: "(float64 \<Rightarrow> float64 \<Rightarrow> bool) \<Rightarrow> float64 list \<Rightarrow> nat \<Rightarrow> nat \<Rightarrow> float64 \<Rightarrow> nat" where
  "argbest better [] i b v = b"
| "argbest better (x # xs) i b v =
     (if better x v then argbest better xs (Suc i) i x else argbest better xs (Suc i) b v)"

definition idxmax :: "float64 list \<Rightarrow> nat option" where
  "idxmax xs =
     (if list_all (\<lambda>x. x = NaN) xs then None
      else case map (fillna NegInf) xs of
             [] \<Rightarrow> None
           | v # vs \<Rightarrow> Some (argbest (\<lambda>x best. fless best x) vs 1 0 v))"

definition idxmin :: "float64 list \<Rightarrow> nat option" where
  "idxmin xs =
     (if list_all (\<lambda>x. x = NaN) xs then None
      else case map (fillna PosInf) xs of
             [] \<Rightarrow> None
           | v # vs \<Rightarrow> Some (argbest (\<lambda>x best. fless x best) vs 1 0 v))"

definition loc :: "comparison_row list \<Rightarrow> nat option \<Rightarrow> comparison_row option" where
  "loc df idx = (case idx of None \<Rightarrow> None | Some i \<Rightarrow> if i < length df then Some (df ! i) else None)"

text \<open>
  The summary is the last part of the script: it is reached only when the charts
  before it were drawn. Three of the drawing calls are given two arrays whose lengths
  come from different selections of the comparison table, and raise when the lengths
  cannot be matched:
  \<^item> line 88, \<^verbatim>\<open>ax1.bar(x + offset, data['union_time_ms'], ...)\<close> for each precision in
    \<^verbatim>\<open>[10, 12, 14]\<close>: \<open>x\<close> has one entry per distinct window of the table, \<open>data\<close> holds
    the rows of that precision, and the two are broadcast against each other;
  \<^item> line 93, \<^verbatim>\<open>ax1.plot(x, exact_times.values, ...)\<close>: \<open>exact_times\<close> has one entry per
    window of the rows of precision 12, and the two lengths must be equal;
  \<^item> line 261, \<^verbatim>\<open>ax3.bar(x_pos, speedup_by_prec['mean'], ...)\<close>: \<open>x_pos\<close> has one entry per
    element of \<^verbatim>\<open>precisions\<close>, \<open>speedup_by_prec\<close> one row per distinct precision of the
    table, and the two are broadcast against each other.
  Whether the drawing library completes once these lengths agree is not decided by the
  script; it is the parameter \<open>draws\<close> of the lookups below.
\<close>

definition precisions :: "int list" where
  "precisions = [10, 12, 14]"

definition broadcast :: "nat \<Rightarrow> nat \<Rightarrow> bool" where
  "broadcast m n = (m = n \<or> m = 1 \<or> n = 1)"

definition shapes_agree :: "comparison_row list \<Rightarrow> bool" where
  "shapes_agree df =
     (let x = length (remdups (map num_days df)) in
      list_all (\<lambda>p. broadcast x (length (filter (\<lambda>r. precision r = p) df))) [10, 12, 14] \<and>
      length (remdups (map num_days (filter (\<lambda>r. precision r = 12) df))) = x \<and>
      broadcast (length precisions) (length (remdups (map precision df))))"

text \<open>
  Lines 413 to 415, one statement after the other: each lookup is evaluated only when
  everything before it completed, and \<open>None\<close> stands for a run that has raised by then.
\<close>

definition best_speed :: "bool \<Rightarrow> comparison_row list \<Rightarrow> comparison_row option" where
  "best_speed draws df =
     (if shapes_agree df \<and> draws then loc df (idxmax (map speedup_factor df)) else None)"

definition best_accuracy :: "bool \<Rightarrow> comparison_row list \<Rightarrow> comparison_row option" where
  "best_accuracy draws df =
     (case best_speed draws df of
        None \<Rightarrow> None
      | Some _ \<Rightarrow> loc df (idxmin (map error_pct df)))"

definition best_efficiency :: "bool \<Rightarrow> comparison_row list \<Rightarrow> comparison_row option" where
  "best_efficiency draws df =
     (case best_accuracy draws df of
        None \<Rightarrow> None
      | Some _ \<Rightarrow> loc df (idxmax (map efficiency_score df)))"

section \<open>Loading the input files\<close>

text \<open>
  What a script finds at a path: no file, a file that cannot be read or parsed, or a
  file with its parsed content.
\<close>

datatype 'a source = Absent | Unreadable | Table 'a

text \<open>
  \<^verbatim>\<open>load_data\<close> of \<^verbatim>\<open>plot_results.py\<close>: \<open>None\<close> when the file does not exist, and
  \<open>None\<close> again when reading it raises.
\<close>

definition load_data :: "'a source \<Rightarrow> 'a option" where
  "load_data f = (case f of Absent \<Rightarrow> None | Unreadable \<Rightarrow> None | Table df \<Rightarrow> Some df)"

text \<open>
  The top of \<^verbatim>\<open>union_plot.py\<close>: both files are read inside one \<^verbatim>\<open>try\<close>, the union
  file first. A missing file ends the process with \<^verbatim>\<open>exit(1)\<close>; any other failure of
  the read is not caught.
\<close>

datatype stop = SystemExit int | Uncaught

definition union_plot_load ::
  "union_rec list source \<Rightarrow> exact_rec list source \<Rightarrow> stop + (union_rec list \<times> exact_rec list)" where
  "union_plot_load fu fx =
     (case fu of
        Absent \<Rightarrow> Inl (SystemExit 1)
      | Unreadable \<Rightarrow> Inl Uncaught
      | Table union_df \<Rightarrow>
          (case fx of
             Absent \<Rightarrow> Inl (SystemExit 1)
           | Unreadable \<Rightarrow> Inl Uncaught
           | Table exact_df \<Rightarrow> Inr (union_df, exact_df)))"

text \<open>
  The aggregation step of \<^verbatim>\<open>union_plot.py\<close>, which follows the load directly: the two
  aggregated tables and the comparison table that is written to \<^verbatim>\<open>comparison.csv\<close>.
\<close>

definition union_plot_analysis ::
  "union_rec list source \<Rightarrow> exact_rec list source \<Rightarrow>
     stop + (union_stat list \<times> exact_stat list \<times> comparison_row list)" where
  "union_plot_analysis fu fx =
     (case union_plot_load fu fx of
        Inl e \<Rightarrow> Inl e
      | Inr (union_df, exact_df) \<Rightarrow>
          Inr (union_stats union_df, exact_stats exact_df, comparison_df union_df exact_df))"

section \<open>Parsing a pgbench summary\<close>

text \<open>
  The content of a file read in text mode is a sequence of Unicode code points. The two
  regular expressions of \<^verbatim>\<open>parse_pgbench_summary\<close> have one shape: a literal, the group
  \<^verbatim>\<open>(\d+\.\d+)\<close>, a literal. The patterns are text patterns, so \<^verbatim>\<open>\d\<close> matches every
  Unicode decimal digit, and \<^verbatim>\<open>float\<close> reads the same digits by their decimal value.
  Among the code points below 128 the decimal digits are \<^verbatim>\<open>0\<close> to \<^verbatim>\<open>9\<close>; which code
  points from 128 on are decimal digits, and with which value, is the interpreter's
  Unicode table, the parameter \<open>uni\<close>. Neither literal after a run of digits starts
  with a digit, so the greedy runs never give a character back and a match at a
  position is decided by reading the longest runs of digits.
\<close>

type_synonym codepoint = nat

definition codepoints :: "string \<Rightarrow> codepoint list" where
  "codepoints s = map of_char s"

definition decimal :: "(codepoint \<Rightarrow> nat option) \<Rightarrow> codepoint \<Rightarrow> nat option" where
  "decimal uni c =
     (if 48 \<le> c \<and> c \<le> 57 then Some (c - 48) else if c < 128 then None else uni c)"

definition is_digit :: "(codepoint \<Rightarrow> nat option) \<Rightarrow> codepoint \<Rightarrow> bool" where
  "is_digit uni c = (decimal uni c \<noteq> None)"

definition match_decimal ::
  "(codepoint \<Rightarrow> nat option) \<Rightarrow> codepoint list \<Rightarrow> codepoint list \<Rightarrow> codepoint list \<Rightarrow>
     (codepoint list \<times> codepoint list) option" where
  "match_decimal uni pre suf s =
     (if take (length pre) s \<noteq> pre then None
      else let r = drop (length pre) s;
               ip = takeWhile (is_digit uni) r;
               r1 = dropWhile (is_digit uni) r
           in if ip = [] then None
              else (case r1 of
                      [] \<Rightarrow> None
                    | c # r2 \<Rightarrow>
                        if c \<noteq> 46 then None
                        else let fp = takeWhile (is_digit uni) r2;
                                 r3 = dropWhile (is_digit uni) r2
                             in if fp = [] \<or> take (length suf) r3 \<noteq> suf then None
                                else Some (ip, fp)))"

text \<open>\<^verbatim>\<open>re.search\<close>: the match at the leftmost position that has one.\<close>

fun re_search :: "(codepoint list \<Rightarrow> 'a option) \<Rightarrow> codepoint list \<Rightarrow> 'a option" where
  "re_search m [] = m []"
| "re_search m (c # cs) = (case m (c # cs) of Some g \<Rightarrow> Some g | None \<Rightarrow> re_search m cs)"

text \<open>
  \<^verbatim>\<open>float\<close> of the matched group \<open>ip.fp\<close>: the decimal number the digits denote,
  converted to binary64. The conversion (to the nearest binary64 number, and to
  infinity beyond the largest one) is the interpreter's, the parameter \<open>conv\<close>.
\<close>

definition digit_val :: "(codepoint \<Rightarrow> nat option) \<Rightarrow> codepoint \<Rightarrow> nat" where
  "digit_val uni c = (case decimal uni c of None \<Rightarrow> 0 | Some v \<Rightarrow> v)"

definition digits_val :: "(codepoint \<Rightarrow> nat option) \<Rightarrow> codepoint list \<Rightarrow> nat" where
  "digits_val uni ds = foldl (\<lambda>a c. 10 * a + digit_val uni c) 0 ds"

definition decimal_value ::
  "(codepoint \<Rightarrow> nat option) \<Rightarrow> codepoint list \<times> codepoint list \<Rightarrow> real" where
  "decimal_value uni g =
     real (digits_val uni (fst g)) + real (digits_val uni (snd g)) / 10 ^ length (snd g)"

definition float_of_group ::
  "(codepoint \<Rightarrow> nat option) \<Rightarrow> (real \<Rightarrow> float64) \<Rightarrow> codepoint list \<times> codepoint list \<Rightarrow> float64" where
  "float_of_group uni conv g = conv (decimal_value uni g)"

definition parse_pgbench_summary ::
  "(codepoint \<Rightarrow> nat option) \<Rightarrow> (real \<Rightarrow> float64) \<Rightarrow> codepoint list source \<Rightarrow>
     (string \<rightharpoonup> float64) option" where
  "parse_pgbench_summary uni conv f =
     (case f of
        Absent \<Rightarrow> None
      | Unreadable \<Rightarrow> None
      | Table content \<Rightarrow>
          (case (re_search (match_decimal uni (codepoints ''tps = '') (codepoints '' (excluding'')) content,
                 re_search (match_decimal uni (codepoints ''latency average = '') (codepoints '' ms'')) content) of
             (Some tps_match, Some lat_match) \<Rightarrow>
               Some [''tps'' \<mapsto> float_of_group uni conv tps_match,
                     ''latency'' \<mapsto> float_of_group uni conv lat_match]
           | _ \<Rightarrow> None))"

section \<open>The driver of \<^verbatim>\<open>plot_results.py\<close>\<close>

text \<open>
  A plot function returns at once when a table it needs is \<open>None\<close> (or when no summary
  was kept); otherwise it draws, and the drawing either completes or raises. Whether
  the drawing of a chart completes on the loaded tables is decided by the tables and
  by the drawing library, not by the script: it is the parameter \<open>lib\<close>.
\<close>

datatype plot = BulkAgg | Storage | Hashing | Pgbench

datatype outcome = Skipped | Drawn | Failed

record 'df renderer =
  bulk_agg_draws :: "'df \<Rightarrow> 'df \<Rightarrow> bool"
  storage_draws :: "'df \<Rightarrow> bool"
  hashing_draws :: "'df \<Rightarrow> bool"
  pgbench_draws :: "(string \<times> (string \<rightharpoonup> float64)) list \<Rightarrow> bool"

record 'df results_dir =
  bulk_exact_csv :: "'df source"
  bulk_hll_csv :: "'df source"
  storage_csv :: "'df source"
  hashing_csv :: "'df source"
  low_card_insert_txt :: "codepoint list source"
  high_card_insert_txt :: "codepoint list source"
  read_cardinality_txt :: "codepoint list source"
  read_union_txt :: "codepoint list source"

definition test_files :: "'df results_dir \<Rightarrow> (string \<times> codepoint list source) list" where
  "test_files d =
     [(''low_card_insert'', low_card_insert_txt d),
      (''high_card_insert'', high_card_insert_txt d),
      (''read_cardinality'', read_cardinality_txt d),
      (''read_union'', read_union_txt d)]"

text \<open>
  The loop over \<^verbatim>\<open>test_files\<close>: a summary is kept when the parse gave a dictionary
  (which has two keys, so it counts as true).
\<close>

definition pgbench_results ::
  "(codepoint \<Rightarrow> nat option) \<Rightarrow> (real \<Rightarrow> float64) \<Rightarrow> 'df results_dir \<Rightarrow>
     (string \<times> (string \<rightharpoonup> float64)) list" where
  "pgbench_results uni conv d =
     concat (map (\<lambda>(test_name, f).
                    case parse_pgbench_summary uni conv f of
                      None \<Rightarrow> []
                    | Some parsed \<Rightarrow> [(test_name, parsed)])
                 (test_files d))"

definition plot_bulk_agg :: "'df renderer \<Rightarrow> 'df option \<Rightarrow> 'df option \<Rightarrow> outcome" where
  "plot_bulk_agg lib df_exact df_hll =
     (case df_exact of
        None \<Rightarrow> Skipped
      | Some e \<Rightarrow>
          (case df_hll of
             None \<Rightarrow> Skipped
           | Some h \<Rightarrow> if bulk_agg_draws lib e h then Drawn else Failed))"

definition plot_storage :: "'df renderer \<Rightarrow> 'df option \<Rightarrow> outcome" where
  "plot_storage lib df_storage =
     (case df_storage of
        None \<Rightarrow> Skipped
      | Some t \<Rightarrow> if storage_draws lib t then Drawn else Failed)"

definition plot_hashing :: "'df renderer \<Rightarrow> 'df option \<Rightarrow> outcome" where
  "plot_hashing lib df_hashing =
     (case df_hashing of
        None \<Rightarrow> Skipped
      | Some t \<Rightarrow> if hashing_draws lib t then Drawn else Failed)"

definition plot_pgbench_results ::
  "'df renderer \<Rightarrow> (string \<times> (string \<rightharpoonup> float64)) list \<Rightarrow> outcome" where
  "plot_pgbench_results lib pgbench_data =
     (if pgbench_data = [] then Skipped
      else if pgbench_draws lib pgbench_data then Drawn else Failed)"

text \<open>
  The four calls at the end of \<^verbatim>\<open>main\<close> follow each other with nothing around them:
  a call that raises ends \<^verbatim>\<open>main\<close>, and the calls after it are not made. The result
  is the list of the charts drawn and whether \<^verbatim>\<open>main\<close> returned.
\<close>

fun run_plots :: "(plot \<times> outcome) list \<Rightarrow> plot list \<times> bool" where
  "run_plots [] = ([], True)"
| "run_plots ((p, Skipped) # rest) = run_plots rest"
| "run_plots ((p, Drawn) # rest) = (p # fst (run_plots rest), snd (run_plots rest))"
| "run_plots ((p, Failed) # rest) = ([], False)"

definition plot_results_main ::
  "(codepoint \<Rightarrow> nat option) \<Rightarrow> (real \<Rightarrow> float64) \<Rightarrow> 'df renderer \<Rightarrow> 'df results_dir \<Rightarrow>
     plot list \<times> bool" where
  "plot_results_main uni conv lib d =
     (let df_bulk_exact = load_data (bulk_exact_csv d);
          df_bulk_hll = load_data (bulk_hll_csv d);
          df_storage = load_data (storage_csv d);
          df_hashing = load_data (hashing_csv d);
          pgbench = pgbench_results uni conv d
      in run_plots
           [(BulkAgg, plot_bulk_agg lib df_bulk_exact df_bulk_hll),
            (Storage, plot_storage lib df_storage),
            (Hashing, plot_hashing lib df_hashing),
            (Pgbench, plot_pgbench_results lib pgbench)])"

section \<open>Sample inputs\<close>

text \<open>One trial per side, for the window of 7 days.\<close>

definition single_union_df :: "union_rec list" where
  "single_union_df =
     [\<lparr>u_precision = 10, u_num_days = 7, u_estimated_count = 1000,
       u_query_time_ms = 1/2, u_total_sketch_size_bytes = 1280\<rparr>]"

definition single_exact_df :: "exact_rec list" where
  "single_exact_df = [\<lparr>x_num_days = 7, x_exact_count = 990, x_query_time_ms = 50\<rparr>]"

text \<open>Two trials of one group whose sketch sizes differ.\<close>

definition sketch_union_df :: "union_rec list" where
  "sketch_union_df =
     [\<lparr>u_precision = 10, u_num_days = 7, u_estimated_count = 1000,
       u_query_time_ms = 1/2, u_total_sketch_size_bytes = 100\<rparr>,
      \<lparr>u_precision = 10, u_num_days = 7, u_estimated_count = 1010,
       u_query_time_ms = 3/5, u_total_sketch_size_bytes = 300\<rparr>]"

text \<open>
  Rows with a zero denominator: a union time of 0, an exact count of 0 (with a non-zero
  and with a zero estimate) and an estimate equal to the exact count.
\<close>

definition degenerate_union_df :: "union_rec list" where
  "degenerate_union_df =
     [\<lparr>u_precision = 10, u_num_days = 7, u_estimated_count = 5,
       u_query_time_ms = 0, u_total_sketch_size_bytes = 1280\<rparr>,
      \<lparr>u_precision = 10, u_num_days = 30, u_estimated_count = 100,
       u_query_time_ms = 1/2, u_total_sketch_size_bytes = 1280\<rparr>,
      \<lparr>u_precision = 12, u_num_days = 7, u_estimated_count = 0,
       u_query_time_ms = 1/2, u_total_sketch_size_bytes = 5120\<rparr>]"

definition degenerate_exact_df :: "exact_rec list" where
  "degenerate_exact_df =
     [\<lparr>x_num_days = 7, x_exact_count = 0, x_query_time_ms = 50\<rparr>,
      \<lparr>x_num_days = 30, x_exact_count = 100, x_query_time_ms = 50\<rparr>]"

text \<open>
  The end-to-end example of the specification; the columns it leaves open are
  parameters.
\<close>

definition spec_union_trials :: "real \<Rightarrow> real \<Rightarrow> int \<Rightarrow> int \<Rightarrow> union_rec list" where
  "spec_union_trials est1 est2 size1 size2 =
     [\<lparr>u_precision = 10, u_num_days = 7, u_estimated_count = est1,
       u_query_time_ms = 0.5, u_total_sketch_size_bytes = size1\<rparr>,
      \<lparr>u_precision = 10, u_num_days = 7, u_estimated_count = est2,
       u_query_time_ms = 0.6, u_total_sketch_size_bytes = size2\<rparr>]"

definition spec_exact_trials :: "real \<Rightarrow> real \<Rightarrow> exact_rec list" where
  "spec_exact_trials cnt1 cnt2 =
     [\<lparr>x_num_days = 7, x_exact_count = cnt1, x_query_time_ms = 50\<rparr>,
      \<lparr>x_num_days = 7, x_exact_count = cnt2, x_query_time_ms = 52\<rparr>]"

text \<open>
  Trials in no particular order: three union groups, one of them with two trials, and
  two exact groups, one of them with three trials.
\<close>

definition mixed_union_df :: "union_rec list" where
  "mixed_union_df =
     [\<lparr>u_precision = 10, u_num_days = 7, u_estimated_count = 1000,
       u_query_time_ms = 0.5, u_total_sketch_size_bytes = 1280\<rparr>,
      \<lparr>u_precision = 12, u_num_days = 7, u_estimated_count = 995,
       u_query_time_ms = 1, u_total_sketch_size_bytes = 5120\<rparr>,
      \<lparr>u_precision = 10, u_num_days = 7, u_estimated_count = 1010,
       u_query_time_ms = 0.6, u_total_sketch_size_bytes = 1280\<rparr>,
      \<lparr>u_precision = 10, u_num_days = 30, u_estimated_count = 4100,
       u_query_time_ms = 2, u_total_sketch_size_bytes = 1280\<rparr>]"

definition mixed_exact_df :: "exact_rec list" where
  "mixed_exact_df =
     [\<lparr>x_num_days = 7, x_exact_count = 990, x_query_time_ms = 50\<rparr>,
      \<lparr>x_num_days = 30, x_exact_count = 4000, x_query_time_ms = 100\<rparr>,
      \<lparr>x_num_days = 7, x_exact_count = 990, x_query_time_ms = 52\<rparr>,
      \<lparr>x_num_days = 7, x_exact_count = 990, x_query_time_ms = 54\<rparr>]"

text \<open>
  Windows present on one side only: 14 days has union trials and no exact trial, 30
  days has an exact trial and no union trial.
\<close>

definition mismatch_union_df :: "union_rec list" where
  "mismatch_union_df =
     [\<lparr>u_precision = 10, u_num_days = 7, u_estimated_count = 1000,
       u_query_time_ms = 1/2, u_total_sketch_size_bytes = 1280\<rparr>,
      \<lparr>u_precision = 12, u_num_days = 7, u_estimated_count = 995,
       u_query_time_ms = 1, u_total_sketch_size_bytes = 5120\<rparr>,
      \<lparr>u_precision = 10, u_num_days = 14, u_estimated_count = 2000,
       u_query_time_ms = 1, u_total_sketch_size_bytes = 1280\<rparr>]"

definition mismatch_exact_df :: "exact_rec list" where
  "mismatch_exact_df =
     [\<lparr>x_num_days = 7, x_exact_count = 990, x_query_time_ms = 50\<rparr>,
      \<lparr>x_num_days = 30, x_exact_count = 4000, x_query_time_ms = 200\<rparr>]"



text \<open>
  Two pgbench summaries in ASCII, one whose throughput is printed without a decimal
  point and one in the format the patterns expect, and a third whose throughput 12.5
  is written with the Arabic-Indic digits U+0661, U+0662 and U+0665.
\<close>

definition summary_integer_tps :: string where
  "summary_integer_tps =
     ''tps = 5000 (excluding connections establishing)\<newline>latency average = 0.200 ms''"

definition summary_ok :: string where
  "summary_ok =
     ''latency average = 0.250 ms\<newline>tps = 4998.75 (excluding connections establishing)''"

definition summary_arabic_indic :: "codepoint list" where
  "summary_arabic_indic =
     codepoints ''tps = '' @ [1633, 1634, 46, 1637] @
     codepoints '' (excluding connections establishing)\<newline>latency average = 0.250 ms''"

text \<open>
  A Unicode table that knows the Arabic-Indic digits U+0660 to U+0669 beyond ASCII, and
  a conversion that is exact below 2 to the power 1024 and gives infinity from there
  on; it agrees with \<^verbatim>\<open>float\<close> on the numbers binary64 represents, such as 4998.75,
  12.5 and 0.25.
\<close>

definition arabic_indic :: "codepoint \<Rightarrow> nat option" where
  "arabic_indic c = (if 1632 \<le> c \<and> c \<le> 1641 then Some (c - 1632) else None)"

definition exact_below_overflow :: "real \<Rightarrow> float64" where
  "exact_below_overflow x = (if x < 2 ^ 1024 then Finite x else PosInf)"

text \<open>
  A drawing layer over tables given by their number of rows, in which the bulk chart
  and the hashing chart fail on a table without rows and every other chart is drawn.
  Two results directories: in the first only the storage table and the bulk HLL table
  are present; in the second every table is present and the bulk tables have no rows.
\<close>

definition sample_renderer :: "nat renderer" where
  "sample_renderer =
     \<lparr> bulk_agg_draws = (\<lambda>e h. e \<noteq> 0 \<and> h \<noteq> 0), storage_draws = (\<lambda>t. True),
       hashing_draws = (\<lambda>t. t \<noteq> 0), pgbench_draws = (\<lambda>p. True) \<rparr>"

definition storage_only_dir :: "nat results_dir" where
  "storage_only_dir =
     \<lparr> bulk_exact_csv = Absent, bulk_hll_csv = Table 5, storage_csv = Table 3,
       hashing_csv = Absent, low_card_insert_txt = Absent, high_card_insert_txt = Absent,
       read_cardinality_txt = Table (codepoints ''connection refused''),
       read_union_txt = Unreadable \<rparr>"

definition empty_bulk_dir :: "nat results_dir" where
  "empty_bulk_dir =
     \<lparr> bulk_exact_csv = Table 0, bulk_hll_csv = Table 0, storage_csv = Table 3,
       hashing_csv = Table 4, low_card_insert_txt = Absent, high_card_insert_txt = Absent,
       read_cardinality_txt = Absent, read_union_txt = Absent \<rparr>"

section \<open>Facts about the aggregation\<close>

lemmas agg_defs = union_stats_def union_agg_def union_group_def union_groups_def union_key_def
  exact_stats_def exact_agg_def exact_group_def exact_groups_def
  less_eq_prod_def less_prod_def Let_def

lemma union_stats_keys:
  "map (\<lambda>s. (us_precision s, us_num_days s)) (union_stats df) = union_groups df"
  by (simp add: union_stats_def union_agg_def Let_def comp_def)

lemma exact_stats_keys: "map es_num_days (exact_stats df) = exact_groups df"
  by (simp add: exact_stats_def exact_agg_def Let_def comp_def)

lemma set_union_groups: "set (union_groups df) = union_key ` set df"
  by (simp add: union_groups_def)

lemma set_exact_groups: "set (exact_groups df) = x_num_days ` set df"
  by (simp add: exact_groups_def)

lemma union_group_nonempty: "k \<in> set (union_groups df) \<Longrightarrow> union_group df k \<noteq> []"
  by (auto simp: set_union_groups union_group_def filter_empty_conv)

lemma exact_group_nonempty: "k \<in> set (exact_groups df) \<Longrightarrow> exact_group df k \<noteq> []"
  by (auto simp: set_exact_groups exact_group_def filter_empty_conv)

lemma in_union_stats:
  "s \<in> set (union_stats df) \<longleftrightarrow> (\<exists>k\<in>set (union_groups df). s = union_agg df k)"
  by (auto simp: union_stats_def)

lemma in_exact_stats:
  "s \<in> set (exact_stats df) \<longleftrightarrow> (\<exists>k\<in>set (exact_groups df). s = exact_agg df k)"
  by (auto simp: exact_stats_def)

lemma std_single: "length xs = 1 \<Longrightarrow> std xs = NaN"
  by (simp add: std_def)

section \<open>The aggregated tables\<close>

text \<open>
  C6. Each aggregated table has exactly one row per distinct group key of its input:
  the keys of its rows are pairwise different, they are exactly the pairs
  (precision, num_days) that occur in the union trials (the values of num_days that
  occur in the exact trials), and the table has as many rows as there are such keys.
  Its rows are in ascending order of the key, the pairs being compared
  lexicographically. This holds for every trial set, the empty one included.
\<close>

theorem aggregated_keys_unique_sorted:
  "distinct (map (\<lambda>s. (us_precision s, us_num_days s)) (union_stats udf)) \<and>
   sorted (map (\<lambda>s. (us_precision s, us_num_days s)) (union_stats udf)) \<and>
   set (map (\<lambda>s. (us_precision s, us_num_days s)) (union_stats udf))
     = (\<lambda>t. (u_precision t, u_num_days t)) ` set udf \<and>
   length (union_stats udf) = card ((\<lambda>t. (u_precision t, u_num_days t)) ` set udf) \<and>
   distinct (map es_num_days (exact_stats xdf)) \<and>
   sorted (map es_num_days (exact_stats xdf)) \<and>
   set (map es_num_days (exact_stats xdf)) = x_num_days ` set xdf \<and>
   length (exact_stats xdf) = card (x_num_days ` set xdf)"
proof -
  let ?ku = "map (\<lambda>s. (us_precision s, us_num_days s)) (union_stats udf)"
  let ?kx = "map es_num_days (exact_stats xdf)"
  have k: "union_key = (\<lambda>t. (u_precision t, u_num_days t))"
    by (rule ext) (simp add: union_key_def)
  have u: "distinct ?ku" "sorted ?ku" "set ?ku = (\<lambda>t. (u_precision t, u_num_days t)) ` set udf"
    unfolding union_stats_keys by (simp_all add: union_groups_def k)
  have x: "distinct ?kx" "sorted ?kx" "set ?kx = x_num_days ` set xdf"
    unfolding exact_stats_keys by (simp_all add: exact_groups_def)
  have lu: "length (union_stats udf) = card ((\<lambda>t. (u_precision t, u_num_days t)) ` set udf)"
    using distinct_card [OF u(1)] u(3) by simp
  have lx: "length (exact_stats xdf) = card (x_num_days ` set xdf)"
    using distinct_card [OF x(1)] x(3) by simp
  from u x lu lx show ?thesis by (intro conjI)
qed

theorem aggregated_keys_unique_sorted_witness:
  "map (\<lambda>s. (us_precision s, us_num_days s)) (union_stats mixed_union_df)
     = [(10, 7), (10, 30), (12, 7)] \<and>
   length (union_stats mixed_union_df) = 3 \<and>
   length (exact_stats mixed_exact_df) = 2"
proof -
  have c1: "card ((\<lambda>t. (u_precision t, u_num_days t)) ` set mixed_union_df) = 3"
    by (simp add: mixed_union_df_def card_insert_if)
  have c2: "card (x_num_days ` set mixed_exact_df) = 2"
    by (simp add: mixed_exact_df_def card_insert_if)
  have k: "map (\<lambda>s. (us_precision s, us_num_days s)) (union_stats mixed_union_df)
     = [(10, 7), (10, 30), (12, 7)]"
    by (simp add: mixed_union_df_def agg_defs mean_def std_def)
  from aggregated_keys_unique_sorted [of mixed_union_df mixed_exact_df] c1 c2
  have "length (union_stats mixed_union_df) = 3" "length (exact_stats mixed_exact_df) = 2"
    by simp_all
  with k show ?thesis by simp
qed

text \<open>
  C2, as the claim states it, fails: the standard deviation of the timing column of a
  group of one trial is NaN on both sides, not 0.
\<close>

theorem single_trial_stddev_counterexample:
  "map us_union_stddev_ms (union_stats single_union_df) = [NaN] \<and>
   map es_exact_stddev_ms (exact_stats single_exact_df) = [NaN]"
  by (simp add: single_union_df_def single_exact_df_def agg_defs std_def)

text \<open>
  C2 (amended). For every group containing exactly one trial, the sample standard
  deviation of the timing column (\<^verbatim>\<open>union_stddev_ms\<close>, \<^verbatim>\<open>exact_stddev_ms\<close>) is NaN.
\<close>

theorem single_trial_stddev_nan:
  "(\<forall>s\<in>set (union_stats udf).
      length (union_group udf (us_precision s, us_num_days s)) = 1 \<longrightarrow>
      us_union_stddev_ms s = NaN) \<and>
   (\<forall>s\<in>set (exact_stats xdf).
      length (exact_group xdf (es_num_days s)) = 1 \<longrightarrow> es_exact_stddev_ms s = NaN)"
  by (auto simp: in_union_stats in_exact_stats union_agg_def exact_agg_def Let_def std_single)

theorem single_trial_stddev_nan_witness:
  "union_agg single_union_df (10, 7) \<in> set (union_stats single_union_df) \<and>
   length (union_group single_union_df (10, 7)) = 1 \<and>
   us_union_stddev_ms (union_agg single_union_df (10, 7)) = NaN \<and>
   exact_agg single_exact_df 7 \<in> set (exact_stats single_exact_df) \<and>
   length (exact_group single_exact_df 7) = 1 \<and>
   es_exact_stddev_ms (exact_agg single_exact_df 7) = NaN"
proof -
  have m1: "union_agg single_union_df (10, 7) \<in> set (union_stats single_union_df)"
    by (simp add: single_union_df_def union_stats_def union_groups_def union_key_def)
  have l1: "length (union_group single_union_df (10, 7)) = 1"
    by (simp add: single_union_df_def union_group_def union_key_def)
  have k1: "us_precision (union_agg single_union_df (10, 7)) = 10"
           "us_num_days (union_agg single_union_df (10, 7)) = 7"
    by (simp_all add: union_agg_def Let_def)
  have m2: "exact_agg single_exact_df 7 \<in> set (exact_stats single_exact_df)"
    by (simp add: single_exact_df_def exact_stats_def exact_groups_def)
  have l2: "length (exact_group single_exact_df 7) = 1"
    by (simp add: single_exact_df_def exact_group_def)
  have k2: "es_num_days (exact_agg single_exact_df 7) = 7"
    by (simp add: exact_agg_def Let_def)
  from single_trial_stddev_nan [of single_union_df single_exact_df] m1 l1 k1 m2 l2 k2
  show ?thesis by auto
qed

text \<open>
  C5, as the claim states it, fails: for a group with sketch sizes 100 and 300 the
  aggregated sketch-size column holds 300, while the arithmetic mean of the two sizes
  is 200.
\<close>

theorem sketch_bytes_mean_counterexample:
  "map us_total_sketch_bytes (union_stats sketch_union_df) = [300] \<and>
   mean (map real_of_int (map u_total_sketch_size_bytes sketch_union_df)) = Finite 200"
  by (simp add: sketch_union_df_def agg_defs mean_def)

text \<open>
  C5 (amended). For every group of union trials, the sketch-size statistic
  (\<^verbatim>\<open>total_sketch_bytes\<close>) is the maximum of the group's sketch sizes: it is the size
  of some trial of the group, and no trial of the group has a larger one.
\<close>

theorem sketch_bytes_is_group_max:
  assumes "s \<in> set (union_stats df)"
  shows "(\<exists>t\<in>set df. union_key t = (us_precision s, us_num_days s) \<and>
            u_total_sketch_size_bytes t = us_total_sketch_bytes s) \<and>
         (\<forall>t\<in>set df. union_key t = (us_precision s, us_num_days s) \<longrightarrow>
            u_total_sketch_size_bytes t \<le> us_total_sketch_bytes s)"
proof -
  from assms obtain k where k: "k \<in> set (union_groups df)" and s: "s = union_agg df k"
    by (auto simp: in_union_stats)
  let ?g = "union_group df k"
  let ?S = "set (map u_total_sketch_size_bytes ?g)"
  have key: "(us_precision s, us_num_days s) = k"
    by (simp add: s union_agg_def Let_def)
  have val: "us_total_sketch_bytes s = Max ?S"
    by (simp add: s union_agg_def Let_def)
  have ne: "?S \<noteq> {}" using union_group_nonempty [OF k] by simp
  have fin: "finite ?S" by simp
  from Max_in [OF fin ne] have "Max ?S \<in> ?S" .
  then obtain t where t: "t \<in> set ?g" "u_total_sketch_size_bytes t = Max ?S"
    by auto
  then have ex: "\<exists>t\<in>set df. union_key t = k \<and> u_total_sketch_size_bytes t = Max ?S"
    by (auto simp: union_group_def)
  have le: "\<forall>t\<in>set df. union_key t = k \<longrightarrow> u_total_sketch_size_bytes t \<le> Max ?S"
  proof (intro ballI impI)
    fix t assume "t \<in> set df" "union_key t = k"
    then have "u_total_sketch_size_bytes t \<in> ?S" by (auto simp: union_group_def)
    then show "u_total_sketch_size_bytes t \<le> Max ?S" using fin by (rule_tac Max_ge)
  qed
  show ?thesis using ex le by (simp add: key val)
qed

theorem sketch_bytes_is_group_max_witness:
  "union_agg sketch_union_df (10, 7) \<in> set (union_stats sketch_union_df) \<and>
   100 \<le> us_total_sketch_bytes (union_agg sketch_union_df (10, 7)) \<and>
   300 \<le> us_total_sketch_bytes (union_agg sketch_union_df (10, 7))"
proof -
  let ?s = "union_agg sketch_union_df (10, 7)"
  have m: "?s \<in> set (union_stats sketch_union_df)"
    by (simp add: sketch_union_df_def union_stats_def union_groups_def union_key_def)
  have k: "us_precision ?s = 10" "us_num_days ?s = 7"
    by (simp_all add: union_agg_def Let_def)
  have a: "\<forall>t\<in>set sketch_union_df. union_key t = (10, 7) \<longrightarrow>
            u_total_sketch_size_bytes t \<le> us_total_sketch_bytes ?s"
    using sketch_bytes_is_group_max [OF m] by (simp add: k)
  have "100 \<le> us_total_sketch_bytes ?s" "300 \<le> us_total_sketch_bytes ?s"
    using a by (simp_all add: sketch_union_df_def union_key_def)
  with m show ?thesis by simp
qed

text \<open>
  C8, as the claim states it, fails: aggregating an empty collection of trials does
  not fail, it returns the empty table.
\<close>

theorem aggregate_empty_counterexample:
  "union_stats [] = [] \<and> exact_stats [] = []"
  by (simp add: union_stats_def union_groups_def exact_stats_def exact_groups_def)

text \<open>
  C8 (amended). The aggregation returns a table for every collection of trials, and
  the table is empty exactly when the collection is empty.
\<close>

theorem aggregate_empty_iff:
  "(union_stats udf = []) = (udf = []) \<and> (exact_stats xdf = []) = (xdf = [])"
proof -
  have "(union_groups udf = []) = (udf = [])"
    using set_union_groups [of udf] by (metis image_is_empty set_empty)
  moreover have "(exact_groups xdf = []) = (xdf = [])"
    using set_exact_groups [of xdf] by (metis image_is_empty set_empty)
  ultimately show ?thesis by (simp add: union_stats_def exact_stats_def)
qed

section \<open>Facts about the join\<close>

lemmas cmp_defs = comparison_df_def merge_on_num_days_def join_row_def
lemmas metric_defs = error_absolute_def error_pct_def speedup_factor_def efficiency_score_def
  sketch_size_kb_def

lemmas degenerate_eval = degenerate_union_df_def degenerate_exact_df_def cmp_defs agg_defs
  mean_def std_def

lemmas mismatch_eval = mismatch_union_df_def mismatch_exact_df_def cmp_defs agg_defs
  mean_def std_def

lemma filter_eq_distinct:
  "distinct xs \<Longrightarrow> filter (\<lambda>k. k = w) xs = (if w \<in> set xs then [w] else [])"
  by (induction xs) (auto simp: filter_empty_conv)

lemma exact_stats_filter:
  "filter (\<lambda>e. es_num_days e = w) (exact_stats E) =
     (if w \<in> x_num_days ` set E then [exact_agg E w] else [])"
proof -
  have "filter (\<lambda>e. es_num_days e = w) (exact_stats E) =
        map (exact_agg E) (filter (\<lambda>k. k = w) (exact_groups E))"
    by (simp add: exact_stats_def filter_map comp_def exact_agg_def Let_def)
  moreover have "distinct (exact_groups E)" by (simp add: exact_groups_def)
  ultimately show ?thesis by (simp add: filter_eq_distinct set_exact_groups)
qed

lemma concat_map_if:
  "concat (map (\<lambda>x. if P x then [f x] else []) xs) = map f (filter P xs)"
  by (induction xs) auto

lemma comparison_df_alt:
  "comparison_df U E =
     map (\<lambda>k. join_row (union_agg U k) (exact_agg E (snd k)))
         (filter (\<lambda>k. snd k \<in> x_num_days ` set E) (union_groups U))"
proof -
  have "comparison_df U E =
        concat (map (\<lambda>k. if snd k \<in> x_num_days ` set E
                           then [join_row (union_agg U k) (exact_agg E (snd k))] else [])
                    (union_groups U))"
    by (simp add: comparison_df_def merge_on_num_days_def union_stats_def comp_def
        exact_stats_filter union_agg_def Let_def if_distrib cong: if_cong)
  then show ?thesis by (simp only: concat_map_if)
qed

lemma comparison_df_keys:
  "map (\<lambda>r. (precision r, num_days r)) (comparison_df U E) =
     filter (\<lambda>k. snd k \<in> x_num_days ` set E) (union_groups U)"
  by (simp add: comparison_df_alt comp_def join_row_def union_agg_def Let_def)

lemma in_comparison_df:
  "r \<in> set (comparison_df U E) \<longleftrightarrow>
     (\<exists>k\<in>set (union_groups U). snd k \<in> set (exact_groups E) \<and>
         r = join_row (union_agg U k) (exact_agg E (snd k)))"
  by (auto simp: comparison_df_alt set_exact_groups)

lemma comparison_row_finite:
  assumes "r \<in> set (comparison_df U E)"
  shows "\<exists>a c tu tx. avg_estimate r = Finite a \<and> exact_count r = Finite c \<and>
           union_time_ms r = Finite tu \<and> exact_time_ms r = Finite tx"
proof -
  from assms obtain k where k: "k \<in> set (union_groups U)" "snd k \<in> set (exact_groups E)"
    and r: "r = join_row (union_agg U k) (exact_agg E (snd k))"
    by (auto simp: in_comparison_df)
  have gu: "union_group U k \<noteq> []" using k(1) by (rule union_group_nonempty)
  have gx: "exact_group E (snd k) \<noteq> []" using k(2) by (rule exact_group_nonempty)
  show ?thesis using gu gx
    by (simp add: r join_row_def union_agg_def exact_agg_def Let_def mean_def)
qed

lemma fdiv_zero_special: "fdiv x (Finite 0) \<in> {PosInf, NegInf, NaN}"
  by (cases x) auto

lemma union_groups_filter:
  "union_groups (filter (\<lambda>t. Q (union_key t)) U) = filter Q (union_groups U)"
proof -
  have "map union_key (filter (\<lambda>t. Q (union_key t)) U) = filter Q (map union_key U)"
    by (simp add: filter_map comp_def)
  then show ?thesis
    by (simp add: union_groups_def remdups_filter filter_sort)
qed

lemma union_agg_filter:
  assumes "Q k"
  shows "union_agg (filter (\<lambda>t. Q (union_key t)) U) k = union_agg U k"
proof -
  have "union_group (filter (\<lambda>t. Q (union_key t)) U) k = union_group U k"
    using assms by (auto simp: union_group_def intro: filter_cong)
  then show ?thesis by (simp add: union_agg_def)
qed

lemma exact_agg_filter:
  assumes "w \<in> W"
  shows "exact_agg (filter (\<lambda>x. x_num_days x \<in> W) E) w = exact_agg E w"
proof -
  have "exact_group (filter (\<lambda>x. x_num_days x \<in> W) E) w = exact_group E w"
    using assms by (auto simp: exact_group_def intro: filter_cong)
  then show ?thesis by (simp add: exact_agg_def)
qed

lemma comparison_df_drop_unmatched:
  "comparison_df (filter (\<lambda>t. u_num_days t \<in> x_num_days ` set E) U)
                 (filter (\<lambda>x. x_num_days x \<in> u_num_days ` set U) E) = comparison_df U E"
proof -
  let ?X = "x_num_days ` set E"
  let ?W = "u_num_days ` set U"
  let ?Q = "\<lambda>k::int \<times> int. snd k \<in> ?X"
  let ?U' = "filter (\<lambda>t. ?Q (union_key t)) U"
  let ?E' = "filter (\<lambda>x. x_num_days x \<in> ?W) E"
  have U': "filter (\<lambda>t. u_num_days t \<in> ?X) U = ?U'" by (simp add: union_key_def)
  have groups: "union_groups ?U' = filter ?Q (union_groups U)" by (rule union_groups_filter)
  have inW: "snd k \<in> ?W" if "k \<in> set (union_groups U)" for k
    using that by (auto simp: set_union_groups union_key_def)
  have X': "x_num_days ` set ?E' = ?X \<inter> ?W" by auto
  have keep: "filter (\<lambda>k. snd k \<in> x_num_days ` set ?E') (filter ?Q (union_groups U))
              = filter ?Q (union_groups U)"
    unfolding X' by (rule filter_True) (auto dest: inW)
  have "comparison_df ?U' ?E' =
        map (\<lambda>k. join_row (union_agg ?U' k) (exact_agg ?E' (snd k))) (filter ?Q (union_groups U))"
    by (simp only: comparison_df_alt groups keep)
  also have "\<dots> = map (\<lambda>k. join_row (union_agg U k) (exact_agg E (snd k))) (filter ?Q (union_groups U))"
  proof (rule map_cong [OF refl])
    fix k assume k: "k \<in> set (filter ?Q (union_groups U))"
    then have q: "?Q k" and w: "snd k \<in> ?W" by (auto dest: inW)
    show "join_row (union_agg ?U' k) (exact_agg ?E' (snd k)) =
          join_row (union_agg U k) (exact_agg E (snd k))"
      using union_agg_filter [of ?Q k U, OF q] exact_agg_filter [OF w, of E] by simp
  qed
  also have "\<dots> = comparison_df U E" by (simp only: comparison_df_alt)
  finally show ?thesis by (simp only: U')
qed

lemma comparison_df_join:
  "r \<in> set (comparison_df U E) \<Longrightarrow>
   \<exists>u\<in>set (union_stats U). \<exists>e\<in>set (exact_stats E).
      es_num_days e = us_num_days u \<and> r = join_row u e"
  by (auto simp: comparison_df_def merge_on_num_days_def)

lemma spec_example_speedup:
  "map speedup_factor (comparison_df (spec_union_trials e1 e2 b1 b2) (spec_exact_trials c1 c2))
     = [Finite (51 / 0.55)]"
  by (simp add: spec_union_trials_def spec_exact_trials_def cmp_defs agg_defs mean_def
      metric_defs)

lemma comparison_row_group_means:
  assumes "r \<in> set (comparison_df U E)"
  shows "[t\<leftarrow>U. u_precision t = precision r \<and> u_num_days t = num_days r] \<noteq> [] \<and>
         [t\<leftarrow>E. x_num_days t = num_days r] \<noteq> [] \<and>
         union_time_ms r = Finite
           (sum_list (map u_query_time_ms [t\<leftarrow>U. u_precision t = precision r \<and> u_num_days t = num_days r])
            / real (length [t\<leftarrow>U. u_precision t = precision r \<and> u_num_days t = num_days r])) \<and>
         exact_time_ms r = Finite
           (sum_list (map x_query_time_ms [t\<leftarrow>E. x_num_days t = num_days r])
            / real (length [t\<leftarrow>E. x_num_days t = num_days r]))"
proof -
  from assms obtain k where k: "k \<in> set (union_groups U)" "snd k \<in> set (exact_groups E)"
    and r: "r = join_row (union_agg U k) (exact_agg E (snd k))"
    by (auto simp: in_comparison_df)
  have p: "precision r = fst k" "num_days r = snd k"
    by (simp_all add: r join_row_def union_agg_def Let_def)
  have gu: "[t\<leftarrow>U. u_precision t = precision r \<and> u_num_days t = num_days r] = union_group U k"
    unfolding union_group_def union_key_def p by (rule filter_cong) auto
  have gx: "[t\<leftarrow>E. x_num_days t = num_days r] = exact_group E (snd k)"
    by (simp add: exact_group_def p)
  have nu: "union_group U k \<noteq> []" using k(1) by (rule union_group_nonempty)
  have nx: "exact_group E (snd k) \<noteq> []" using k(2) by (rule exact_group_nonempty)
  have tu: "union_time_ms r = mean (map u_query_time_ms (union_group U k))"
    and tx: "exact_time_ms r = mean (map x_query_time_ms (exact_group E (snd k)))"
    by (simp_all add: r join_row_def union_agg_def exact_agg_def Let_def)
  show ?thesis unfolding gu gx using nu nx by (simp add: tu tx mean_def)
qed

section \<open>The comparison table\<close>

text \<open>
  C1, as the claim states it, fails: with a zero denominator the metric is an ordinary
  float64 cell holding an infinity or NaN. In the sample, the row (10, 7) has exact
  count 0 and union time 0, the row (10, 30) has error 0, and the row (12, 7) has exact
  count 0 and estimate 0.
\<close>

theorem degenerate_metric_counterexample:
  "map error_pct (comparison_df degenerate_union_df degenerate_exact_df) = [PosInf, Finite 0, NaN] \<and>
   map speedup_factor (comparison_df degenerate_union_df degenerate_exact_df) = [PosInf, Finite 100, Finite 100] \<and>
   map efficiency_score (comparison_df degenerate_union_df degenerate_exact_df) = [NaN, PosInf, NaN]"
  by (simp add: degenerate_union_df_def degenerate_exact_df_def cmp_defs agg_defs mean_def std_def
      metric_defs)

text \<open>
  C1 (amended). For every row of the comparison table whose denominator is zero, the
  affected metric is a float64 cell holding an infinity or NaN, and no marker is
  attached to it: with \<^verbatim>\<open>exact_count\<close> 0, \<^verbatim>\<open>error_pct\<close> is NaN when the estimate is 0
  too and plus infinity otherwise; with \<^verbatim>\<open>union_time_ms\<close> 0, \<^verbatim>\<open>speedup_factor\<close> is an
  infinity or NaN; with \<^verbatim>\<open>error_pct\<close> 0, \<^verbatim>\<open>efficiency_score\<close> is an infinity or NaN.
\<close>

theorem zero_denominator_gives_inf_or_nan:
  assumes "r \<in> set (comparison_df U E)"
  shows "(exact_count r = Finite 0 \<longrightarrow>
            error_pct r = (if avg_estimate r = Finite 0 then NaN else PosInf)) \<and>
         (union_time_ms r = Finite 0 \<longrightarrow> speedup_factor r \<in> {PosInf, NegInf, NaN}) \<and>
         (error_pct r = Finite 0 \<longrightarrow> efficiency_score r \<in> {PosInf, NegInf, NaN})"
proof -
  from comparison_row_finite [OF assms] obtain a c tu tx where
    f: "avg_estimate r = Finite a" "exact_count r = Finite c"
       "union_time_ms r = Finite tu" "exact_time_ms r = Finite tx" by blast
  have 1: "exact_count r = Finite 0 \<longrightarrow>
            error_pct r = (if avg_estimate r = Finite 0 then NaN else PosInf)"
    using f by (auto simp: error_pct_def error_absolute_def)
  have 2: "union_time_ms r = Finite 0 \<longrightarrow> speedup_factor r \<in> {PosInf, NegInf, NaN}"
    by (simp add: speedup_factor_def fdiv_zero_special del: insert_iff)
  have 3: "error_pct r = Finite 0 \<longrightarrow> efficiency_score r \<in> {PosInf, NegInf, NaN}"
    by (simp add: efficiency_score_def fdiv_zero_special del: insert_iff)
  from 1 2 3 show ?thesis by blast
qed

theorem zero_denominator_gives_inf_or_nan_witness:
  "comparison_df degenerate_union_df degenerate_exact_df ! 0
     \<in> set (comparison_df degenerate_union_df degenerate_exact_df) \<and>
   exact_count (comparison_df degenerate_union_df degenerate_exact_df ! 0) = Finite 0 \<and>
   error_pct (comparison_df degenerate_union_df degenerate_exact_df ! 0) = PosInf \<and>
   union_time_ms (comparison_df degenerate_union_df degenerate_exact_df ! 0) = Finite 0 \<and>
   speedup_factor (comparison_df degenerate_union_df degenerate_exact_df ! 0) \<in> {PosInf, NegInf, NaN} \<and>
   comparison_df degenerate_union_df degenerate_exact_df ! 1
     \<in> set (comparison_df degenerate_union_df degenerate_exact_df) \<and>
   error_pct (comparison_df degenerate_union_df degenerate_exact_df ! 1) = Finite 0 \<and>
   efficiency_score (comparison_df degenerate_union_df degenerate_exact_df ! 1) \<in> {PosInf, NegInf, NaN}"
proof -
  let ?T = "comparison_df degenerate_union_df degenerate_exact_df"
  have m0: "?T ! 0 \<in> set ?T" and m1: "?T ! 1 \<in> set ?T"
    by (simp_all add: degenerate_eval)
  have c0: "exact_count (?T ! 0) = Finite 0" and a0: "avg_estimate (?T ! 0) = Finite 5"
    and u0: "union_time_ms (?T ! 0) = Finite 0"
    by (simp_all add: degenerate_eval)
  have e1: "error_pct (?T ! 1) = Finite 0"
    by (simp add: degenerate_eval metric_defs)
  from zero_denominator_gives_inf_or_nan [OF m0] c0 a0 u0
  have r0: "error_pct (?T ! 0) = PosInf" "speedup_factor (?T ! 0) \<in> {PosInf, NegInf, NaN}"
    by simp_all
  from zero_denominator_gives_inf_or_nan [OF m1] e1
  have r1: "efficiency_score (?T ! 1) \<in> {PosInf, NegInf, NaN}"
    by blast
  from m0 m1 c0 u0 e1 r0 r1 show ?thesis by blast
qed

text \<open>
  C3, as the claim states it, fails in its last part: the join returns the matched
  rows and nothing else. The windows 14 (no exact trial) and 30 (no union trial) leave
  no trace: the result is the one obtained from the inputs without them.
\<close>

theorem skipped_keys_counterexample:
  "map precision (comparison_df mismatch_union_df mismatch_exact_df) = [10, 12] \<and>
   map num_days (comparison_df mismatch_union_df mismatch_exact_df) = [7, 7] \<and>
   comparison_df mismatch_union_df mismatch_exact_df
     = comparison_df (take 2 mismatch_union_df) (take 1 mismatch_exact_df)"
  by (simp add: mismatch_eval)

text \<open>
  C3 (amended). The comparison joins the two aggregated tables by an inner join on
  \<^verbatim>\<open>num_days\<close> only, the precision being carried over from the union side: every output
  row pairs a union row with the exact row of the same window, and the keys
  (precision, num_days) of the output are, in order and without repetition, the group
  keys of the union table whose window occurs in the exact trials. The windows that
  occur on one side only are dropped without a record: removing their trials from the
  inputs does not change the output.
\<close>

theorem compare_inner_join_drops_unmatched:
  "map (\<lambda>r. (precision r, num_days r)) (comparison_df U E) =
     filter (\<lambda>k. snd k \<in> x_num_days ` set E) (union_groups U) \<and>
   distinct (map (\<lambda>r. (precision r, num_days r)) (comparison_df U E)) \<and>
   (\<forall>r\<in>set (comparison_df U E).
      \<exists>u\<in>set (union_stats U). \<exists>e\<in>set (exact_stats E).
        es_num_days e = us_num_days u \<and> r = join_row u e) \<and>
   comparison_df (filter (\<lambda>t. u_num_days t \<in> x_num_days ` set E) U)
                 (filter (\<lambda>x. x_num_days x \<in> u_num_days ` set U) E) = comparison_df U E"
proof -
  have d: "distinct (union_groups U)" by (simp add: union_groups_def)
  show ?thesis
    using comparison_df_keys [of U E] comparison_df_join [of _ U E]
      comparison_df_drop_unmatched [of E U] distinct_filter [OF d]
    by auto
qed

theorem compare_inner_join_drops_unmatched_witness:
  "map (\<lambda>r. (precision r, num_days r)) (comparison_df mismatch_union_df mismatch_exact_df)
     = [(10, 7), (12, 7)] \<and>
   comparison_df (take 2 mismatch_union_df) (take 1 mismatch_exact_df)
     = comparison_df mismatch_union_df mismatch_exact_df"
proof -
  have g: "union_groups mismatch_union_df = [(10, 7), (10, 14), (12, 7)]"
    by (simp add: mismatch_union_df_def agg_defs)
  have fu: "filter (\<lambda>t. u_num_days t \<in> x_num_days ` set mismatch_exact_df) mismatch_union_df
            = take 2 mismatch_union_df"
    by (simp add: mismatch_union_df_def mismatch_exact_df_def)
  have fx: "filter (\<lambda>x. x_num_days x \<in> u_num_days ` set mismatch_union_df) mismatch_exact_df
            = take 1 mismatch_exact_df"
    by (simp add: mismatch_union_df_def mismatch_exact_df_def)
  have k: "filter (\<lambda>k. snd k \<in> x_num_days ` set mismatch_exact_df) [(10, 7), (10, 14), (12, 7)]
            = [(10, 7), (12, 7)]"
    by (simp add: mismatch_exact_df_def)
  from compare_inner_join_drops_unmatched [of mismatch_union_df mismatch_exact_df]
  have a: "map (\<lambda>r. (precision r, num_days r)) (comparison_df mismatch_union_df mismatch_exact_df)
             = filter (\<lambda>k. snd k \<in> x_num_days ` set mismatch_exact_df) (union_groups mismatch_union_df)"
    and b: "comparison_df
              (filter (\<lambda>t. u_num_days t \<in> x_num_days ` set mismatch_exact_df) mismatch_union_df)
              (filter (\<lambda>x. x_num_days x \<in> u_num_days ` set mismatch_union_df) mismatch_exact_df)
             = comparison_df mismatch_union_df mismatch_exact_df"
    by blast+
  from a [unfolded g k] b [unfolded fu fx] show ?thesis by (rule conjI)
qed

text \<open>
  C4. For every joined row, \<^verbatim>\<open>union_time_ms\<close> is the sum of the query times of the
  union trials with the row's precision and window divided by their number,
  \<^verbatim>\<open>exact_time_ms\<close> is the sum of the query times of the exact trials with the row's
  window divided by their number (neither set of trials is empty), and
  \<^verbatim>\<open>speedup_factor\<close> is the second divided by the first whenever the first is not 0.
  For the union trials (precision 10, window 7, times 0.5 and 0.6) and the exact trials
  (window 7, times 50 and 52) the one row of the table has the mean times 0.55 and 51
  and the speedup 51 / 0.55, which is 92.73 to two decimals.
\<close>

theorem speedup_is_ratio_of_group_means:
  "(\<forall>r\<in>set (comparison_df U E).
      [t\<leftarrow>U. u_precision t = precision r \<and> u_num_days t = num_days r] \<noteq> [] \<and>
      [t\<leftarrow>E. x_num_days t = num_days r] \<noteq> [] \<and>
      union_time_ms r = Finite
        (sum_list (map u_query_time_ms [t\<leftarrow>U. u_precision t = precision r \<and> u_num_days t = num_days r])
         / real (length [t\<leftarrow>U. u_precision t = precision r \<and> u_num_days t = num_days r])) \<and>
      exact_time_ms r = Finite
        (sum_list (map x_query_time_ms [t\<leftarrow>E. x_num_days t = num_days r])
         / real (length [t\<leftarrow>E. x_num_days t = num_days r])) \<and>
      (\<forall>tu tx. union_time_ms r = Finite tu \<longrightarrow> exact_time_ms r = Finite tx \<longrightarrow> tu \<noteq> 0 \<longrightarrow>
         speedup_factor r = Finite (tx / tu))) \<and>
   map union_time_ms (comparison_df (spec_union_trials e1 e2 b1 b2) (spec_exact_trials c1 c2))
     = [Finite 0.55] \<and>
   map exact_time_ms (comparison_df (spec_union_trials e1 e2 b1 b2) (spec_exact_trials c1 c2))
     = [Finite 51] \<and>
   map speedup_factor (comparison_df (spec_union_trials e1 e2 b1 b2) (spec_exact_trials c1 c2))
     = [Finite (51 / 0.55)] \<and>
   \<bar>51 / 0.55 - 92.73\<bar> < (0.005 :: real)"
proof -
  have ex: "map union_time_ms (comparison_df (spec_union_trials e1 e2 b1 b2) (spec_exact_trials c1 c2))
     = [Finite 0.55]"
    "map exact_time_ms (comparison_df (spec_union_trials e1 e2 b1 b2) (spec_exact_trials c1 c2))
     = [Finite 51]"
    by (simp_all add: spec_union_trials_def spec_exact_trials_def cmp_defs agg_defs mean_def)
  have sp: "\<forall>tu tx. union_time_ms r = Finite tu \<longrightarrow> exact_time_ms r = Finite tx \<longrightarrow> tu \<noteq> 0 \<longrightarrow>
         speedup_factor r = Finite (tx / tu)" for r
    by (simp add: speedup_factor_def)
  show ?thesis
    using comparison_row_group_means [of _ U E] sp ex spec_example_speedup [of e1 e2 b1 b2 c1 c2]
    by simp
qed

theorem speedup_is_ratio_of_group_means_witness:
  "comparison_df mixed_union_df mixed_exact_df ! 0 \<in> set (comparison_df mixed_union_df mixed_exact_df) \<and>
   precision (comparison_df mixed_union_df mixed_exact_df ! 0) = 10 \<and>
   num_days (comparison_df mixed_union_df mixed_exact_df ! 0) = 7 \<and>
   union_time_ms (comparison_df mixed_union_df mixed_exact_df ! 0) = Finite 0.55 \<and>
   exact_time_ms (comparison_df mixed_union_df mixed_exact_df ! 0) = Finite 52 \<and>
   speedup_factor (comparison_df mixed_union_df mixed_exact_df ! 0) = Finite (52 / 0.55)"
proof -
  let ?T = "comparison_df mixed_union_df mixed_exact_df"
  have k: "map precision ?T = [10, 10, 12]" "map num_days ?T = [7, 30, 7]"
    by (simp_all add: mixed_union_df_def mixed_exact_df_def comparison_df_keys [THEN arg_cong] cmp_defs agg_defs)
  have m: "?T ! 0 \<in> set ?T"
    using k(1) by (metis length_map length_greater_0_conv list.distinct(1) nth_mem)
  have p: "precision (?T ! 0) = 10" "num_days (?T ! 0) = 7"
    using k by (metis length_map length_greater_0_conv list.distinct(1) nth_map nth_Cons_0)+
  have gu: "[t\<leftarrow>mixed_union_df. u_precision t = 10 \<and> u_num_days t = 7]
            = [mixed_union_df ! 0, mixed_union_df ! 2]"
    by (simp add: mixed_union_df_def)
  have gx: "[t\<leftarrow>mixed_exact_df. x_num_days t = 7]
            = [mixed_exact_df ! 0, mixed_exact_df ! 2, mixed_exact_df ! 3]"
    by (simp add: mixed_exact_df_def)
  have su: "sum_list (map u_query_time_ms [mixed_union_df ! 0, mixed_union_df ! 2]) / real 2 = 0.55"
    by (simp add: mixed_union_df_def)
  have sx: "sum_list (map x_query_time_ms [mixed_exact_df ! 0, mixed_exact_df ! 2, mixed_exact_df ! 3]) / real 3 = 52"
    by (simp add: mixed_exact_df_def)
  from speedup_is_ratio_of_group_means [of mixed_union_df mixed_exact_df] m
  have a: "union_time_ms (?T ! 0) = Finite
        (sum_list (map u_query_time_ms [t\<leftarrow>mixed_union_df. u_precision t = precision (?T ! 0) \<and> u_num_days t = num_days (?T ! 0)])
         / real (length [t\<leftarrow>mixed_union_df. u_precision t = precision (?T ! 0) \<and> u_num_days t = num_days (?T ! 0)]))"
    and b: "exact_time_ms (?T ! 0) = Finite
        (sum_list (map x_query_time_ms [t\<leftarrow>mixed_exact_df. x_num_days t = num_days (?T ! 0)])
         / real (length [t\<leftarrow>mixed_exact_df. x_num_days t = num_days (?T ! 0)]))"
    and c: "\<forall>tu tx. union_time_ms (?T ! 0) = Finite tu \<longrightarrow> exact_time_ms (?T ! 0) = Finite tx \<longrightarrow> tu \<noteq> 0 \<longrightarrow>
         speedup_factor (?T ! 0) = Finite (tx / tu)"
    by blast+
  have tu: "union_time_ms (?T ! 0) = Finite 0.55"
    using a unfolding p gu using su by simp
  have tx: "exact_time_ms (?T ! 0) = Finite 52"
    using b unfolding p gx using sx by simp
  have s: "speedup_factor (?T ! 0) = Finite (52 / 0.55)"
    using c [rule_format, OF tu tx] by simp
  from m p tu tx s show ?thesis by (intro conjI)
qed

section \<open>Facts about the position of an extreme cell\<close>








lemmas best_defs = best_speed_def best_accuracy_def best_efficiency_def loc_def
  idxmax_def idxmin_def fillna_def shapes_agree_def broadcast_def precisions_def










text \<open>
  A table without a row of precision 14 over two windows does not reach the summary:
  line 88 raises for that precision.
\<close>

lemma summary_not_reached_without_precision_14:
  "best_speed draws (comparison_df degenerate_union_df degenerate_exact_df) = None"
  by (simp add: degenerate_eval best_defs)

text \<open>
  The three lookups follow each other: a later one gives a row only when the earlier
  ones did, and the first one only when the charts were drawn.
\<close>

lemma lookups_in_sequence:
  "best_speed draws T = Some r \<Longrightarrow> shapes_agree T \<and> draws"
  "best_accuracy draws T = Some r \<Longrightarrow> \<exists>s. best_speed draws T = Some s"
  "best_efficiency draws T = Some r \<Longrightarrow> \<exists>a. best_accuracy draws T = Some a"
  by (auto simp: best_speed_def best_accuracy_def best_efficiency_def
      split: if_splits option.splits)

section \<open>The best configurations\<close>




section \<open>Facts about the summary parser\<close>

lemmas parse_eval = parse_pgbench_summary_def match_decimal_def is_digit_def decimal_def
  codepoints_def Let_def float_of_group_def decimal_value_def digits_val_def digit_val_def

lemma re_search_Some:
  "re_search m s = Some g \<Longrightarrow> \<exists>a b. s = a @ b \<and> m b = Some g"
proof (induction s)
  case Nil
  then show ?case by simp
next
  case (Cons c cs)
  show ?case
  proof (cases "m (c # cs)")
    case None
    with Cons.prems have "re_search m cs = Some g" by simp
    from Cons.IH [OF this] obtain a b where "cs = a @ b" "m b = Some g" by blast
    then have "c # cs = (c # a) @ b \<and> m b = Some g" by simp
    then show ?thesis by blast
  next
    case (Some h)
    with Cons.prems have "c # cs = [] @ (c # cs) \<and> m (c # cs) = Some g" by simp
    then show ?thesis by blast
  qed
qed

lemma match_decimal_Some:
  assumes "match_decimal uni pre suf s = Some (ip, fp)"
  shows "\<exists>rest. s = pre @ ip @ [46] @ fp @ suf @ rest \<and> ip \<noteq> [] \<and> fp \<noteq> [] \<and>
            list_all (is_digit uni) ip \<and> list_all (is_digit uni) fp"
proof -
  let ?r = "drop (length pre) s"
  from assms have p: "take (length pre) s = pre"
    by (simp add: match_decimal_def split: if_splits)
  from assms p have ip: "ip = takeWhile (is_digit uni) ?r" and ne: "ip \<noteq> []"
    by (auto simp: match_decimal_def Let_def split: if_splits list.splits)
  from assms p obtain r2 where r1: "dropWhile (is_digit uni) ?r = 46 # r2"
    and fp: "fp = takeWhile (is_digit uni) r2" and fne: "fp \<noteq> []"
    and suf: "take (length suf) (dropWhile (is_digit uni) r2) = suf"
    by (auto simp: match_decimal_def Let_def split: if_splits list.splits)
  have "s = pre @ ?r" using p append_take_drop_id [of "length pre" s] by simp
  also have "?r = ip @ 46 # r2"
    using takeWhile_dropWhile_id [of "is_digit uni" ?r] by (simp add: ip r1)
  also have "r2 = fp @ dropWhile (is_digit uni) r2" by (simp add: fp)
  also have "dropWhile (is_digit uni) r2
             = suf @ drop (length suf) (dropWhile (is_digit uni) r2)"
    using suf append_take_drop_id [of "length suf" "dropWhile (is_digit uni) r2"] by simp
  finally have "s = pre @ ip @ [46] @ fp @ suf @ drop (length suf) (dropWhile (is_digit uni) r2)"
    by simp
  moreover have "list_all (is_digit uni) ip" "list_all (is_digit uni) fp"
    by (auto simp: ip fp list_all_iff dest: set_takeWhileD)
  ultimately show ?thesis using ne fne by blast
qed

lemma decimal_value_nonneg: "0 \<le> decimal_value uni g"
  by (simp add: decimal_value_def)

lemma parse_pgbench_summary_Some:
  assumes "parse_pgbench_summary uni conv f = Some d"
  shows "\<exists>content tm lm. f = Table content \<and>
           re_search (match_decimal uni (codepoints ''tps = '') (codepoints '' (excluding'')) content = Some tm \<and>
           re_search (match_decimal uni (codepoints ''latency average = '') (codepoints '' ms'')) content = Some lm \<and>
           d = [''tps'' \<mapsto> float_of_group uni conv tm, ''latency'' \<mapsto> float_of_group uni conv lm]"
  using assms
  by (auto simp: parse_pgbench_summary_def split: source.splits option.splits)

lemma search_decimal_Some:
  assumes "re_search (match_decimal uni pre suf) content = Some g"
  shows "\<exists>a b ip fp. content = a @ pre @ ip @ [46] @ fp @ suf @ b \<and> ip \<noteq> [] \<and> fp \<noteq> [] \<and>
           list_all (is_digit uni) ip \<and> list_all (is_digit uni) fp \<and> g = (ip, fp)"
proof -
  from re_search_Some [OF assms] obtain a s where s: "content = a @ s"
    and m: "match_decimal uni pre suf s = Some g" by blast
  obtain ip fp where g: "g = (ip, fp)" by (cases g)
  from match_decimal_Some [OF m [unfolded g]] obtain rest where
    "s = pre @ ip @ [46] @ fp @ suf @ rest" "ip \<noteq> []" "fp \<noteq> []"
    "list_all (is_digit uni) ip" "list_all (is_digit uni) fp" by blast
  with s g show ?thesis by blast
qed

section \<open>Facts about the driver\<close>

lemma load_data_Some: "(load_data s = Some t) = (s = Table t)"
  by (cases s) (auto simp: load_data_def)

lemma load_data_None: "(load_data s = None) = (\<forall>t. s \<noteq> Table t)"
  by (cases s) (auto simp: load_data_def)

lemma plot_bulk_agg_outcome:
  "(plot_bulk_agg lib (load_data x) (load_data y) = Drawn) =
     (\<exists>e h. x = Table e \<and> y = Table h \<and> bulk_agg_draws lib e h)"
  "(plot_bulk_agg lib (load_data x) (load_data y) = Failed) =
     (\<exists>e h. x = Table e \<and> y = Table h \<and> \<not> bulk_agg_draws lib e h)"
  by (cases x; cases y; simp add: plot_bulk_agg_def load_data_def)+

lemma plot_storage_outcome:
  "(plot_storage lib (load_data x) = Drawn) = (\<exists>t. x = Table t \<and> storage_draws lib t)"
  "(plot_storage lib (load_data x) = Failed) = (\<exists>t. x = Table t \<and> \<not> storage_draws lib t)"
  by (cases x; simp add: plot_storage_def load_data_def)+

lemma plot_hashing_outcome:
  "(plot_hashing lib (load_data x) = Drawn) = (\<exists>t. x = Table t \<and> hashing_draws lib t)"
  "(plot_hashing lib (load_data x) = Failed) = (\<exists>t. x = Table t \<and> \<not> hashing_draws lib t)"
  by (cases x; simp add: plot_hashing_def load_data_def)+

lemma plot_pgbench_outcome:
  "(plot_pgbench_results lib p = Drawn) = (p \<noteq> [] \<and> pgbench_draws lib p)"
  by (simp add: plot_pgbench_results_def)

lemma run_plots_four:
  "(BulkAgg \<in> set (fst (run_plots [(BulkAgg, a), (Storage, b), (Hashing, c), (Pgbench, e)])))
     = (a = Drawn)"
  "(Storage \<in> set (fst (run_plots [(BulkAgg, a), (Storage, b), (Hashing, c), (Pgbench, e)])))
     = (b = Drawn \<and> a \<noteq> Failed)"
  "(Hashing \<in> set (fst (run_plots [(BulkAgg, a), (Storage, b), (Hashing, c), (Pgbench, e)])))
     = (c = Drawn \<and> a \<noteq> Failed \<and> b \<noteq> Failed)"
  "(Pgbench \<in> set (fst (run_plots [(BulkAgg, a), (Storage, b), (Hashing, c), (Pgbench, e)])))
     = (e = Drawn \<and> a \<noteq> Failed \<and> b \<noteq> Failed \<and> c \<noteq> Failed)"
  by (cases a; cases b; cases c; cases e; simp)+

section \<open>Parsing and loading\<close>

text \<open>
  C10. For every state of the input file, \<^verbatim>\<open>parse_pgbench_summary\<close> returns either
  \<open>None\<close> or a dictionary with exactly the keys \<^verbatim>\<open>tps\<close> and \<^verbatim>\<open>latency\<close>, both mapped to
  non-negative floats (a non-negative number or plus infinity), whenever the float
  conversion maps the non-negative numbers to such floats; it returns a value in every
  case (a missing file and a failed read give \<open>None\<close>). It returns a dictionary only
  when the content holds a throughput and a latency written as decimal digits (the
  ASCII digits and the digits of the Unicode table from code point 128 on), a point
  and decimal digits between the two fixed texts, and the values are the conversions
  of these decimals. So a figure without that form gives \<open>None\<close>: the summary with
  \<^verbatim>\<open>tps = 5000 (excluding\<close> does, for every Unicode table and every conversion.
\<close>

theorem parse_pgbench_summary_result:
  assumes conv: "\<And>x. 0 \<le> x \<Longrightarrow> conv x = PosInf \<or> (\<exists>y\<ge>0. conv x = Finite y)"
  shows
  "(parse_pgbench_summary uni conv f = None \<or>
    (\<exists>t l. (t = PosInf \<or> (\<exists>y\<ge>0. t = Finite y)) \<and> (l = PosInf \<or> (\<exists>y\<ge>0. l = Finite y)) \<and>
       parse_pgbench_summary uni conv f = Some [''tps'' \<mapsto> t, ''latency'' \<mapsto> l])) \<and>
   (\<forall>d. parse_pgbench_summary uni conv f = Some d \<longrightarrow>
      dom d = {''tps'', ''latency''} \<and>
      (\<exists>content a b ip fp. f = Table content \<and>
         content = a @ codepoints ''tps = '' @ ip @ [46] @ fp @ codepoints '' (excluding'' @ b \<and>
         ip \<noteq> [] \<and> fp \<noteq> [] \<and>
         list_all (\<lambda>c. 48 \<le> c \<and> c \<le> 57 \<or> 128 \<le> c \<and> uni c \<noteq> None) ip \<and> list_all (\<lambda>c. 48 \<le> c \<and> c \<le> 57 \<or> 128 \<le> c \<and> uni c \<noteq> None) fp \<and>
         d ''tps'' = Some (conv (decimal_value uni (ip, fp)))) \<and>
      (\<exists>content a b ip fp. f = Table content \<and>
         content = a @ codepoints ''latency average = '' @ ip @ [46] @ fp @ codepoints '' ms'' @ b \<and>
         ip \<noteq> [] \<and> fp \<noteq> [] \<and>
         list_all (\<lambda>c. 48 \<le> c \<and> c \<le> 57 \<or> 128 \<le> c \<and> uni c \<noteq> None) ip \<and> list_all (\<lambda>c. 48 \<le> c \<and> c \<le> 57 \<or> 128 \<le> c \<and> uni c \<noteq> None) fp \<and>
         d ''latency'' = Some (conv (decimal_value uni (ip, fp))))) \<and>
   parse_pgbench_summary uni conv Absent = None \<and>
   parse_pgbench_summary uni conv Unreadable = None \<and>
   parse_pgbench_summary uni conv (Table (codepoints summary_integer_tps)) = None"
proof -
  have dg: "is_digit uni = (\<lambda>c. 48 \<le> c \<and> c \<le> 57 \<or> 128 \<le> c \<and> uni c \<noteq> None)"
    by (rule ext) (auto simp: is_digit_def decimal_def)
  have nn: "float_of_group uni conv g = PosInf \<or> (\<exists>y\<ge>0. float_of_group uni conv g = Finite y)" for g
    unfolding float_of_group_def by (rule conv) (rule decimal_value_nonneg)
  have 1: "parse_pgbench_summary uni conv f = None \<or>
    (\<exists>t l. (t = PosInf \<or> (\<exists>y\<ge>0. t = Finite y)) \<and> (l = PosInf \<or> (\<exists>y\<ge>0. l = Finite y)) \<and>
       parse_pgbench_summary uni conv f = Some [''tps'' \<mapsto> t, ''latency'' \<mapsto> l])"
  proof (cases "parse_pgbench_summary uni conv f")
    case None
    then show ?thesis by simp
  next
    case (Some d)
    from parse_pgbench_summary_Some [OF Some] obtain tm lm where
      "d = [''tps'' \<mapsto> float_of_group uni conv tm, ''latency'' \<mapsto> float_of_group uni conv lm]"
      by blast
    with Some nn [of tm] nn [of lm] show ?thesis by blast
  qed
  have 2: "dom d = {''tps'', ''latency''} \<and>
      (\<exists>content a b ip fp. f = Table content \<and>
         content = a @ codepoints ''tps = '' @ ip @ [46] @ fp @ codepoints '' (excluding'' @ b \<and>
         ip \<noteq> [] \<and> fp \<noteq> [] \<and>
         list_all (\<lambda>c. 48 \<le> c \<and> c \<le> 57 \<or> 128 \<le> c \<and> uni c \<noteq> None) ip \<and> list_all (\<lambda>c. 48 \<le> c \<and> c \<le> 57 \<or> 128 \<le> c \<and> uni c \<noteq> None) fp \<and>
         d ''tps'' = Some (conv (decimal_value uni (ip, fp)))) \<and>
      (\<exists>content a b ip fp. f = Table content \<and>
         content = a @ codepoints ''latency average = '' @ ip @ [46] @ fp @ codepoints '' ms'' @ b \<and>
         ip \<noteq> [] \<and> fp \<noteq> [] \<and>
         list_all (\<lambda>c. 48 \<le> c \<and> c \<le> 57 \<or> 128 \<le> c \<and> uni c \<noteq> None) ip \<and> list_all (\<lambda>c. 48 \<le> c \<and> c \<le> 57 \<or> 128 \<le> c \<and> uni c \<noteq> None) fp \<and>
         d ''latency'' = Some (conv (decimal_value uni (ip, fp))))"
    if "parse_pgbench_summary uni conv f = Some d" for d
  proof -
    from parse_pgbench_summary_Some [OF that] obtain content tm lm where
      f: "f = Table content"
      and t: "re_search (match_decimal uni (codepoints ''tps = '') (codepoints '' (excluding'')) content = Some tm"
      and l: "re_search (match_decimal uni (codepoints ''latency average = '') (codepoints '' ms'')) content = Some lm"
      and d: "d = [''tps'' \<mapsto> float_of_group uni conv tm, ''latency'' \<mapsto> float_of_group uni conv lm]"
      by blast
    have dm: "dom d = {''tps'', ''latency''}" by (auto simp: d)
    have dt: "d ''tps'' = Some (conv (decimal_value uni tm))"
      by (simp add: d float_of_group_def)
    have dl: "d ''latency'' = Some (conv (decimal_value uni lm))"
      by (simp add: d float_of_group_def)
    from search_decimal_Some [OF t] dt f
    have a: "\<exists>content a b ip fp. f = Table content \<and>
         content = a @ codepoints ''tps = '' @ ip @ [46] @ fp @ codepoints '' (excluding'' @ b \<and>
         ip \<noteq> [] \<and> fp \<noteq> [] \<and>
         list_all (\<lambda>c. 48 \<le> c \<and> c \<le> 57 \<or> 128 \<le> c \<and> uni c \<noteq> None) ip \<and> list_all (\<lambda>c. 48 \<le> c \<and> c \<le> 57 \<or> 128 \<le> c \<and> uni c \<noteq> None) fp \<and>
         d ''tps'' = Some (conv (decimal_value uni (ip, fp)))"
      unfolding dg by blast
    from search_decimal_Some [OF l] dl f
    have b: "\<exists>content a b ip fp. f = Table content \<and>
         content = a @ codepoints ''latency average = '' @ ip @ [46] @ fp @ codepoints '' ms'' @ b \<and>
         ip \<noteq> [] \<and> fp \<noteq> [] \<and>
         list_all (\<lambda>c. 48 \<le> c \<and> c \<le> 57 \<or> 128 \<le> c \<and> uni c \<noteq> None) ip \<and> list_all (\<lambda>c. 48 \<le> c \<and> c \<le> 57 \<or> 128 \<le> c \<and> uni c \<noteq> None) fp \<and>
         d ''latency'' = Some (conv (decimal_value uni (ip, fp)))"
      unfolding dg by blast
    from dm a b show ?thesis by (intro conjI)
  qed
  have 3: "parse_pgbench_summary uni conv Absent = None"
    "parse_pgbench_summary uni conv Unreadable = None"
    by (simp_all add: parse_pgbench_summary_def)
  have 4: "parse_pgbench_summary uni conv (Table (codepoints summary_integer_tps)) = None"
    by (simp add: summary_integer_tps_def parse_eval)
  from 1 2 3 4 show ?thesis by blast
qed

theorem parse_pgbench_summary_result_witness:
  "parse_pgbench_summary arabic_indic exact_below_overflow (Table (codepoints summary_ok))
     = Some [''tps'' \<mapsto> Finite 4998.75, ''latency'' \<mapsto> Finite 0.25] \<and>
   dom [''tps'' \<mapsto> Finite 4998.75, ''latency'' \<mapsto> Finite 0.25] = {''tps'', ''latency''} \<and>
   parse_pgbench_summary arabic_indic exact_below_overflow (Table summary_arabic_indic)
     = Some [''tps'' \<mapsto> Finite 12.5, ''latency'' \<mapsto> Finite 0.25] \<and>
   parse_pgbench_summary arabic_indic exact_below_overflow (Table (codepoints summary_integer_tps))
     = None"
proof -
  have c: "exact_below_overflow x = PosInf \<or> (\<exists>y\<ge>0. exact_below_overflow x = Finite y)"
    if "0 \<le> x" for x
    using that by (simp add: exact_below_overflow_def)
  have e: "parse_pgbench_summary arabic_indic exact_below_overflow (Table (codepoints summary_ok))
     = Some [''tps'' \<mapsto> Finite 4998.75, ''latency'' \<mapsto> Finite 0.25]"
    by (simp add: summary_ok_def parse_eval arabic_indic_def exact_below_overflow_def)
  have u: "parse_pgbench_summary arabic_indic exact_below_overflow (Table summary_arabic_indic)
     = Some [''tps'' \<mapsto> Finite 12.5, ''latency'' \<mapsto> Finite 0.25]"
    by (simp add: summary_arabic_indic_def parse_eval arabic_indic_def exact_below_overflow_def)
  note r = parse_pgbench_summary_result [of exact_below_overflow arabic_indic, OF c]
  from r [of "Table (codepoints summary_ok)"] e
  have d: "dom [''tps'' \<mapsto> Finite 4998.75, ''latency'' \<mapsto> Finite 0.25] = {''tps'', ''latency''}"
    by blast
  from r [of Absent]
  have n: "parse_pgbench_summary arabic_indic exact_below_overflow (Table (codepoints summary_integer_tps))
     = None"
    by blast
  from e d u n show ?thesis by (intro conjI)
qed

text \<open>
  C9, as the claim states it, fails for \<^verbatim>\<open>union_plot.py\<close>: when the union file is
  absent the script exits with status 1 before any computation, so the aggregation of
  the exact trials, which needs the exact file only and would give one row here, does
  not take place.
\<close>

theorem missing_source_counterexample:
  "union_plot_analysis Absent (Table single_exact_df) = Inl (SystemExit 1) \<and>
   map es_num_days (exact_stats single_exact_df) = [7]"
  by (simp add: union_plot_analysis_def union_plot_load_def single_exact_df_def agg_defs)

text \<open>
  C9 (amended). In \<^verbatim>\<open>plot_results.py\<close>, loading an absent source returns \<open>None\<close>, which
  is not a table; the plot function that needs the source then returns at once without
  raising, and the plot functions after it are still called. So a chart is drawn
  exactly when its own sources were loaded, its drawing completes and no plot function
  called before it raised (for the pgbench chart: when at least one summary was
  parsed). In \<^verbatim>\<open>union_plot.py\<close>, an absent source ends the run with exit status 1 and
  no computation takes place; with both sources present the two aggregated tables and
  the comparison table are computed.
\<close>

theorem missing_source_handling:
  "load_data Absent = None \<and> load_data (Table df) = Some df \<and>
   plot_bulk_agg lib None df_hll = Skipped \<and> plot_bulk_agg lib df_exact None = Skipped \<and>
   plot_storage lib None = Skipped \<and> plot_hashing lib None = Skipped \<and>
   (BulkAgg \<in> set (fst (plot_results_main uni conv lib d))) =
      (\<exists>e h. bulk_exact_csv d = Table e \<and> bulk_hll_csv d = Table h \<and> bulk_agg_draws lib e h) \<and>
   (Storage \<in> set (fst (plot_results_main uni conv lib d))) =
      ((\<exists>t. storage_csv d = Table t \<and> storage_draws lib t) \<and>
       \<not> (\<exists>e h. bulk_exact_csv d = Table e \<and> bulk_hll_csv d = Table h \<and> \<not> bulk_agg_draws lib e h)) \<and>
   (Hashing \<in> set (fst (plot_results_main uni conv lib d))) =
      ((\<exists>t. hashing_csv d = Table t \<and> hashing_draws lib t) \<and>
       \<not> (\<exists>e h. bulk_exact_csv d = Table e \<and> bulk_hll_csv d = Table h \<and> \<not> bulk_agg_draws lib e h) \<and>
       \<not> (\<exists>t. storage_csv d = Table t \<and> \<not> storage_draws lib t)) \<and>
   (Pgbench \<in> set (fst (plot_results_main uni conv lib d))) =
      ((pgbench_results uni conv d \<noteq> [] \<and> pgbench_draws lib (pgbench_results uni conv d)) \<and>
       \<not> (\<exists>e h. bulk_exact_csv d = Table e \<and> bulk_hll_csv d = Table h \<and> \<not> bulk_agg_draws lib e h) \<and>
       \<not> (\<exists>t. storage_csv d = Table t \<and> \<not> storage_draws lib t) \<and>
       \<not> (\<exists>t. hashing_csv d = Table t \<and> \<not> hashing_draws lib t)) \<and>
   union_plot_analysis Absent fx = Inl (SystemExit 1) \<and>
   union_plot_analysis (Table udf) Absent = Inl (SystemExit 1) \<and>
   union_plot_analysis (Table udf) (Table xdf) =
      Inr (union_stats udf, exact_stats xdf, comparison_df udf xdf)"
proof -
  have l: "load_data Absent = None" "load_data (Table df) = Some df"
    by (simp_all add: load_data_def)
  have k: "plot_bulk_agg lib None df_hll = Skipped" "plot_bulk_agg lib df_exact None = Skipped"
    "plot_storage lib None = Skipped" "plot_hashing lib None = Skipped"
    by (simp_all add: plot_bulk_agg_def plot_storage_def plot_hashing_def split: option.splits)
  have m: "(BulkAgg \<in> set (fst (plot_results_main uni conv lib d))) =
      (\<exists>e h. bulk_exact_csv d = Table e \<and> bulk_hll_csv d = Table h \<and> bulk_agg_draws lib e h)"
    "(Storage \<in> set (fst (plot_results_main uni conv lib d))) =
      ((\<exists>t. storage_csv d = Table t \<and> storage_draws lib t) \<and>
       \<not> (\<exists>e h. bulk_exact_csv d = Table e \<and> bulk_hll_csv d = Table h \<and> \<not> bulk_agg_draws lib e h))"
    "(Hashing \<in> set (fst (plot_results_main uni conv lib d))) =
      ((\<exists>t. hashing_csv d = Table t \<and> hashing_draws lib t) \<and>
       \<not> (\<exists>e h. bulk_exact_csv d = Table e \<and> bulk_hll_csv d = Table h \<and> \<not> bulk_agg_draws lib e h) \<and>
       \<not> (\<exists>t. storage_csv d = Table t \<and> \<not> storage_draws lib t))"
    "(Pgbench \<in> set (fst (plot_results_main uni conv lib d))) =
      ((pgbench_results uni conv d \<noteq> [] \<and> pgbench_draws lib (pgbench_results uni conv d)) \<and>
       \<not> (\<exists>e h. bulk_exact_csv d = Table e \<and> bulk_hll_csv d = Table h \<and> \<not> bulk_agg_draws lib e h) \<and>
       \<not> (\<exists>t. storage_csv d = Table t \<and> \<not> storage_draws lib t) \<and>
       \<not> (\<exists>t. hashing_csv d = Table t \<and> \<not> hashing_draws lib t))"
    unfolding plot_results_main_def Let_def run_plots_four
    by (simp_all only: plot_bulk_agg_outcome plot_storage_outcome plot_hashing_outcome
        plot_pgbench_outcome)
  have u: "union_plot_analysis Absent fx = Inl (SystemExit 1)"
    "union_plot_analysis (Table udf) Absent = Inl (SystemExit 1)"
    "union_plot_analysis (Table udf) (Table xdf) =
      Inr (union_stats udf, exact_stats xdf, comparison_df udf xdf)"
    by (simp_all add: union_plot_analysis_def union_plot_load_def)
  from l k m u show ?thesis by (intro conjI)
qed

theorem missing_source_handling_witness:
  "plot_results_main arabic_indic exact_below_overflow sample_renderer storage_only_dir
     = ([Storage], True) \<and>
   hashing_csv storage_only_dir = Absent \<and>
   Storage \<in> set (fst (plot_results_main arabic_indic exact_below_overflow sample_renderer
                         storage_only_dir)) \<and>
   plot_results_main arabic_indic exact_below_overflow sample_renderer empty_bulk_dir
     = ([], False) \<and>
   Storage \<notin> set (fst (plot_results_main arabic_indic exact_below_overflow sample_renderer
                         empty_bulk_dir))"
proof -
  note t = missing_source_handling [of _ sample_renderer _ _ arabic_indic exact_below_overflow]
  have s1: "(\<exists>t. storage_csv storage_only_dir = Table t \<and> storage_draws sample_renderer t) \<and>
       \<not> (\<exists>e h. bulk_exact_csv storage_only_dir = Table e \<and> bulk_hll_csv storage_only_dir = Table h \<and>
             \<not> bulk_agg_draws sample_renderer e h)"
    by (simp add: storage_only_dir_def sample_renderer_def)
  have s2: "\<exists>e h. bulk_exact_csv empty_bulk_dir = Table e \<and> bulk_hll_csv empty_bulk_dir = Table h \<and>
             \<not> bulk_agg_draws sample_renderer e h"
    by (simp add: empty_bulk_dir_def sample_renderer_def)
  have a: "Storage \<in> set (fst (plot_results_main arabic_indic exact_below_overflow sample_renderer
                         storage_only_dir))"
    using t [of storage_only_dir] s1 by blast
  have b: "Storage \<notin> set (fst (plot_results_main arabic_indic exact_below_overflow sample_renderer
                         empty_bulk_dir))"
    using t [of empty_bulk_dir] s2 by blast
  have c: "plot_results_main arabic_indic exact_below_overflow sample_renderer storage_only_dir
     = ([Storage], True)"
    by (simp add: storage_only_dir_def sample_renderer_def plot_results_main_def Let_def
        load_data_def plot_bulk_agg_def plot_storage_def plot_hashing_def
        plot_pgbench_results_def pgbench_results_def test_files_def parse_eval arabic_indic_def)
  have e: "plot_results_main arabic_indic exact_below_overflow sample_renderer empty_bulk_dir
     = ([], False)"
    by (simp add: empty_bulk_dir_def sample_renderer_def plot_results_main_def Let_def
        load_data_def plot_bulk_agg_def plot_storage_def plot_hashing_def
        plot_pgbench_results_def pgbench_results_def test_files_def parse_eval)
  have h: "hashing_csv storage_only_dir = Absent"
    by (simp add: storage_only_dir_def)
  from c h a e b show ?thesis by (intro conjI)
qed

end
